theory Spec2Isabelle
  imports Complex_Main "HOL-Library.Sublist"
begin

section \<open>Python values, exceptions and the outside world\<close>

text \<open>
  The agent (\<^verbatim>\<open>services/agent.py\<close>) and the tool client
  (\<^verbatim>\<open>aitta_mcp/mcp_client_manager.py\<close>) handle values decoded from JSON. They are
  modelled by \<open>json\<close>: \<open>JNull\<close> is \<^verbatim>\<open>None\<close>, \<open>JObj\<close> is a \<^verbatim>\<open>dict\<close> with string keys
  (its items, in order), \<open>JArr\<close> a \<^verbatim>\<open>list\<close>. Strings are lists of 8-bit characters, read
  as the code points 0 to 255; text with a code point beyond them is outside the model.
  A leading underscore of a Python name is dropped (\<^verbatim>\<open>_retrieve_logs\<close> is \<open>retrieve_logs\<close>).
\<close>

datatype json =
    JNull
  | JBool bool
  | JInt int
  | JFloat real
  | JStr string
  | JArr "json list"
  | JObj "(string \<times> json) list"

text \<open>
  Exceptions. \<open>CancelledError\<close> is the only one that is not a subclass of
  \<^verbatim>\<open>Exception\<close>. In this model it has one source: a tool call still waiting for its
  backend when the deadline of the enclosing \<^verbatim>\<open>asyncio.wait_for\<close> expires is cancelled by
  \<^verbatim>\<open>wait_for\<close>, which then raises \<open>TimeoutError\<close> to its caller. A cancellation of the
  whole run from outside is not modelled. \<open>OtherError t m\<close> is any other exception of type
  \<open>t\<close> with text \<open>m\<close> raised by a collaborator.
\<close>

datatype exn =
    CancelledError
  | TimeoutError
  | KeyError string
  | IndexError
  | AttributeError
  | TypeError
  | ValidationError
  | JSONDecodeError string
  | RuntimeError string
  | HTTPException nat string
  | OtherError string string

definition is_Exception :: "exn \<Rightarrow> bool" where
  "is_Exception e = (e \<noteq> CancelledError)"

text \<open>The root of a JSON-RPC reply: a response carries a \<^verbatim>\<open>result\<close> dict, an error has none.\<close>

datatype rpc_root = RpcResult "(string \<times> json) list" | RpcError

record ticket_response =
  ticket_id :: string
  priority :: string
  summary :: string
  description :: string
  assigned_to :: string
  url :: "string option"
  created_at :: real
  processing_time :: real

record ticket_record =
  tr_ticket_id :: string
  tr_alert_id :: string
  tr_host :: string
  tr_severity :: string
  tr_priority :: json
  tr_summary :: json
  tr_description :: json
  tr_assigned_to :: string
  tr_processing_time :: real
  tr_status :: string

text \<open>
  Everything the code does to the outside is an event, appended to the history of the run:
  a tool call sent to a server, a call of \<^verbatim>\<open>log_activity\<close> (alert id, action, detail,
  status), a prompt sent to the LLM provider, a reading of the clock, a ticket record handed
  to the database session, a query for the activity rows of an alert.
\<close>

datatype event =
    ToolCall string string json
  | LogActivity string string string string
  | LLMCall string
  | ClockRead
  | SaveTicket ticket_record
  | QueryActivities string

record alert =
  alert_id :: string
  severity :: string
  message :: string
  host :: string
  timestamp :: real
  metadata :: json

text \<open>
  The collaborators that are not part of the program are parameters. Each one answers from
  the history so far, so that any behaviour of a backend over a run is some value of the
  parameter. \<open>transport\<close> is the child process behind \<^verbatim>\<open>stdio_client\<close> (handshake, request,
  reply), \<open>Inl CancelledError\<close> being a backend that has not answered at the deadline.
  \<open>llm\<close> is the provider's completion: the text, or \<open>Inl (type, text)\<close> for the exception
  the SDK raises. The SDK call is synchronous (\<^verbatim>\<open>_llm_analysis\<close> has no \<^verbatim>\<open>await\<close>), so no
  cancellation reaches it and what it raises is of class \<^verbatim>\<open>Exception\<close>; \<open>llm_seconds\<close> is
  the time that call takes. \<open>json_loads\<close> is \<^verbatim>\<open>json.loads\<close> (\<open>Inl\<close> the
  text of a \<^verbatim>\<open>JSONDecodeError\<close>); \<open>fmt\<close> is \<^verbatim>\<open>str()\<close> of a value that is not a string,
  \<open>fmt_time\<close> of a \<^verbatim>\<open>datetime\<close>, \<open>isoformat\<close> is \<^verbatim>\<open>datetime.isoformat\<close>, \<open>exn_text\<close> is
  \<^verbatim>\<open>str(e)\<close> for the exceptions whose text the interpreter or a library writes;
  \<open>clock\<close> is \<^verbatim>\<open>datetime.now()\<close> in seconds; \<open>db_commit\<close> tells whether the session refuses
  a ticket record, \<open>db_activities\<close> is the answer to the activity query (already formatted).
  The configuration values the agent reads are fields too.
\<close>

record env =
  transport :: "event list \<Rightarrow> string \<Rightarrow> string \<Rightarrow> json \<Rightarrow> exn + rpc_root"
  llm :: "event list \<Rightarrow> string \<Rightarrow> (string \<times> string) + string"
  llm_seconds :: "event list \<Rightarrow> string \<Rightarrow> real"
  json_loads :: "string \<Rightarrow> string + json"
  json_dumps :: "json \<Rightarrow> string"
  fmt :: "json \<Rightarrow> string"
  fmt_time :: "real \<Rightarrow> string"
  isoformat :: "real \<Rightarrow> string"
  exn_text :: "exn \<Rightarrow> string"
  clock :: "event list \<Rightarrow> real"
  db_commit :: "event list \<Rightarrow> ticket_record \<Rightarrow> exn option"
  db_activities :: "event list \<Rightarrow> string \<Rightarrow> exn + json list"
  LLM_PROVIDER :: string
  GEMINI_API_KEY :: string
  ANTHROPIC_API_KEY :: string
  JIRA_PROJECT_KEY :: string
  AGENT_LOG_TIMERANGE :: int

subsection \<open>Python primitives\<close>

text \<open>Truth value of an object (\<^verbatim>\<open>if not response\<close>).\<close>

fun truthy :: "json \<Rightarrow> bool" where
  "truthy JNull = False"
| "truthy (JBool b) = b"
| "truthy (JInt i) = (i \<noteq> 0)"
| "truthy (JFloat r) = (r \<noteq> 0)"
| "truthy (JStr s) = (s \<noteq> [])"
| "truthy (JArr xs) = (xs \<noteq> [])"
| "truthy (JObj kvs) = (kvs \<noteq> [])"

fun py_type_name :: "json \<Rightarrow> string" where
  "py_type_name JNull = ''NoneType''"
| "py_type_name (JBool b) = ''bool''"
| "py_type_name (JInt i) = ''int''"
| "py_type_name (JFloat r) = ''float''"
| "py_type_name (JStr s) = ''str''"
| "py_type_name (JArr xs) = ''list''"
| "py_type_name (JObj kvs) = ''dict''"

text \<open>\<^verbatim>\<open>str(v)\<close> inside an f-string: a string is itself, anything else is formatted.\<close>

definition py_str :: "env \<Rightarrow> json \<Rightarrow> string" where
  "py_str E v = (case v of JStr s \<Rightarrow> s | _ \<Rightarrow> fmt E v)"

text \<open>\<^verbatim>\<open>str(e)\<close>.\<close>

definition str_exn :: "env \<Rightarrow> exn \<Rightarrow> string" where
  "str_exn E e = (case e of
       RuntimeError m \<Rightarrow> m
     | JSONDecodeError m \<Rightarrow> m
     | OtherError t m \<Rightarrow> m
     | KeyError k \<Rightarrow> [CHR 0x27] @ k @ [CHR 0x27]
     | _ \<Rightarrow> exn_text E e)"

text \<open>\<^verbatim>\<open>d.get(k, default)\<close>: only a dict has the method.\<close>

definition dict_get :: "json \<Rightarrow> string \<Rightarrow> json \<Rightarrow> exn + json" where
  "dict_get d k dflt = (case d of
       JObj kvs \<Rightarrow> Inr (case map_of kvs k of Some v \<Rightarrow> v | None \<Rightarrow> dflt)
     | _ \<Rightarrow> Inl AttributeError)"

text \<open>\<^verbatim>\<open>d[k]\<close> with a string key.\<close>

definition dict_index :: "json \<Rightarrow> string \<Rightarrow> exn + json" where
  "dict_index d k = (case d of
       JObj kvs \<Rightarrow> (case map_of kvs k of Some v \<Rightarrow> Inr v | None \<Rightarrow> Inl (KeyError k))
     | _ \<Rightarrow> Inl TypeError)"

text \<open>Whether a value can be hashed (be a dict key, or part of a tuple key).\<close>

fun hashable :: "json \<Rightarrow> bool" where
  "hashable (JArr xs) = False"
| "hashable (JObj kvs) = False"
| "hashable v = True"

text \<open>
  \<^verbatim>\<open>asyncio.wait_for\<close> around a tool call. The call awaits its backend, so the deadline can
  fire while it waits: \<^verbatim>\<open>wait_for\<close> then cancels the call and raises \<open>TimeoutError\<close>. The
  outcome \<open>Inl CancelledError\<close> of a tool call is that cancellation and nothing else (see
  \<open>transport\<close>); every other outcome is handed on as it is.
\<close>

definition wait_for :: "(exn + 'a) \<times> event list \<Rightarrow> (exn + 'a) \<times> event list" where
  "wait_for r = (case r of (Inl CancelledError, t) \<Rightarrow> (Inl TimeoutError, t) | _ \<Rightarrow> r)"

text \<open>
  \<^verbatim>\<open>asyncio.wait_for\<close> around a coroutine that never suspends, as \<^verbatim>\<open>_llm_analysis\<close> (it has
  no \<^verbatim>\<open>await\<close>; the provider is called synchronously). The event loop cannot run the
  callback of the deadline before the coroutine has finished, so \<^verbatim>\<open>wait_for\<close> hands on the
  outcome of the coroutine, a value or an exception, however long it took: neither the
  deadline nor the time taken has any effect.
\<close>

definition wait_for_blocking ::
  "real \<Rightarrow> real \<Rightarrow> (exn + 'a) \<times> event list \<Rightarrow> (exn + 'a) \<times> event list" where
  "wait_for_blocking deadline seconds r = r"

subsection \<open>Strings\<close>

text \<open>
  \<^verbatim>\<open>str.lower\<close> on the code points 0 to 255: the letters A to Z and the capital letters
  192 to 222 (but the sign 215) go 32 up.
\<close>

definition lower_char :: "char \<Rightarrow> char" where
  "lower_char c = (let n = (of_char c :: nat) in
     if (65 \<le> n \<and> n \<le> 90) \<or> (192 \<le> n \<and> n \<le> 222 \<and> n \<noteq> 215) then char_of (n + 32) else c)"

definition lower :: "string \<Rightarrow> string" where
  "lower s = map lower_char s"

text \<open>\<^verbatim>\<open>k in s\<close> for strings.\<close>

fun contains :: "string \<Rightarrow> string \<Rightarrow> bool" where
  "contains k [] = (k = [])"
| "contains k (c # s) = (prefix k (c # s) \<or> contains k s)"

text \<open>
  The white space \<^verbatim>\<open>str.strip\<close> removes, among the code points 0 to 255: 9 to 13, 28 to
  32, 133 (next line) and 160 (no-break space).
\<close>

definition is_space :: "char \<Rightarrow> bool" where
  "is_space c = (let n = (of_char c :: nat) in
     (9 \<le> n \<and> n \<le> 13) \<or> (28 \<le> n \<and> n \<le> 32) \<or> n = 133 \<or> n = 160)"

definition strip :: "string \<Rightarrow> string" where
  "strip s = rev (dropWhile is_space (rev (dropWhile is_space s)))"

text \<open>
  \<^verbatim>\<open>s.split(sep)\<close> for a non-empty separator: \<open>split_aux sep k acc s\<close> scans \<open>s\<close>, with
  \<open>k\<close> characters of a separator still to skip and \<open>acc\<close> the current piece, reversed.
\<close>

fun split_aux :: "string \<Rightarrow> nat \<Rightarrow> string \<Rightarrow> string \<Rightarrow> string list" where
  "split_aux sep k acc [] = [rev acc]"
| "split_aux sep (Suc k) acc (c # s) = split_aux sep k acc s"
| "split_aux sep 0 acc (c # s) =
     (if prefix sep (c # s) then rev acc # split_aux sep (length sep - 1) [] s
      else split_aux sep 0 (c # acc) s)"

definition py_split :: "string \<Rightarrow> string \<Rightarrow> string list" where
  "py_split s sep = split_aux sep 0 [] s"

definition py_nth :: "'a list \<Rightarrow> nat \<Rightarrow> exn + 'a" where
  "py_nth xs i = (if i < length xs then Inr (xs ! i) else Inl IndexError)"

fun join :: "string \<Rightarrow> string list \<Rightarrow> string" where
  "join sep [] = []"
| "join sep [x] = x"
| "join sep (x # y # ys) = x @ sep @ join sep (y # ys)"

section \<open>The tool client (\<^verbatim>\<open>mcp_client_manager.py\<close>)\<close>

text \<open>
  The elements a \<^verbatim>\<open>for\<close> loop or a comprehension sees: the items of a list, the keys of a
  dict, the characters of a string; anything else is not iterable.
\<close>

definition py_iter :: "json \<Rightarrow> exn + json list" where
  "py_iter v = (case v of
       JArr xs \<Rightarrow> Inr xs
     | JObj kvs \<Rightarrow> Inr (map (\<lambda>kv. JStr (fst kv)) kvs)
     | JStr s \<Rightarrow> Inr (map (\<lambda>c. JStr [c]) s)
     | _ \<Rightarrow> Inl TypeError)"

text \<open>\<^verbatim>\<open>[c for c in content if c.get("type") == "text"]\<close>, stopping at the first element without \<^verbatim>\<open>get\<close>.\<close>

fun text_blocks_of :: "json list \<Rightarrow> exn + json list" where
  "text_blocks_of [] = Inr []"
| "text_blocks_of (c # cs) =
     (case dict_get c ''type'' JNull of
        Inl e \<Rightarrow> Inl e
      | Inr ty \<Rightarrow>
         (case text_blocks_of cs of
            Inl e \<Rightarrow> Inl e
          | Inr bs \<Rightarrow> Inr (if ty = JStr ''text'' then c # bs else bs)))"

definition extract_text_content :: "rpc_root \<Rightarrow> exn + json" where
  "extract_text_content rt =
     (let result = (case rt of RpcResult kvs \<Rightarrow> JObj kvs | RpcError \<Rightarrow> JObj []) in
      case dict_get result ''content'' (JArr []) of
        Inl e \<Rightarrow> Inl e
      | Inr content \<Rightarrow>
         (case py_iter content of
            Inl e \<Rightarrow> Inl e
          | Inr cs \<Rightarrow>
             (case text_blocks_of cs of
                Inl e \<Rightarrow> Inl e
              | Inr text_blocks \<Rightarrow>
                 (if text_blocks = [] then Inr JNull
                  else dict_get (hd text_blocks) ''text'' (JStr '''')))))"

text \<open>The registry built in \<^verbatim>\<open>MCPClientManager.__init__\<close>.\<close>

definition servers :: "string list" where
  "servers = [''splunk'', ''jira'', ''cmdb'']"

text \<open>
  \<^verbatim>\<open>call_tool\<close>: an unknown server is a \<^verbatim>\<open>KeyError\<close> before anything is sent; otherwise the
  request goes out, and whatever the session raises is raised, else the text is extracted.
\<close>

definition call_tool :: "env \<Rightarrow> string \<Rightarrow> string \<Rightarrow> json \<Rightarrow> event list \<Rightarrow> (exn + json) \<times> event list" where
  "call_tool E server_name tool_name arguments t =
     (if server_name \<notin> set servers then (Inl (KeyError server_name), t)
      else
        (case transport E t server_name tool_name arguments of
           Inl e \<Rightarrow> (Inl e, t @ [ToolCall server_name tool_name arguments])
         | Inr resp \<Rightarrow> (extract_text_content resp, t @ [ToolCall server_name tool_name arguments])))"

section \<open>The agent (\<^verbatim>\<open>services/agent.py\<close>)\<close>

text \<open>Sequencing of steps that may raise: the first exception ends the block.\<close>

definition and_then :: "exn + 'a \<Rightarrow> ('a \<Rightarrow> exn + 'b) \<Rightarrow> exn + 'b" where
  "and_then r f = (case r of Inl e \<Rightarrow> Inl e | Inr v \<Rightarrow> f v)"

text \<open>\<^verbatim>\<open>len(v)\<close> and \<^verbatim>\<open>v[:n]\<close>.\<close>

definition py_len :: "json \<Rightarrow> exn + int" where
  "py_len v = (case v of
       JArr xs \<Rightarrow> Inr (int (length xs))
     | JStr s \<Rightarrow> Inr (int (length s))
     | JObj kvs \<Rightarrow> Inr (int (length kvs))
     | _ \<Rightarrow> Inl TypeError)"

definition py_slice :: "nat \<Rightarrow> json \<Rightarrow> exn + json" where
  "py_slice n v = (case v of
       JArr xs \<Rightarrow> Inr (JArr (take n xs))
     | JStr s \<Rightarrow> Inr (JStr (take n s))
     | _ \<Rightarrow> Inl TypeError)"

text \<open>\<^verbatim>\<open>_setup_llm\<close>: the value of \<^verbatim>\<open>self.llm_available\<close>.\<close>

definition setup_llm :: "env \<Rightarrow> bool" where
  "setup_llm E =
     (if LLM_PROVIDER E = ''gemini'' \<and> GEMINI_API_KEY E \<noteq> [] then True
      else if LLM_PROVIDER E = ''claude'' \<and> ANTHROPIC_API_KEY E \<noteq> [] then True
      else False)"

text \<open>
  \<^verbatim>\<open>log_activity\<close> hands one row to the session; a failure of the session is caught
  inside it (lines 59-60), so the caller never sees one. The event is the call.
\<close>

definition log_activity :: "string \<Rightarrow> string \<Rightarrow> string \<Rightarrow> string \<Rightarrow> event list \<Rightarrow> event list" where
  "log_activity aid action detail status t = t @ [LogActivity aid action detail status]"

definition parse_tool_response :: "env \<Rightarrow> json \<Rightarrow> exn + json" where
  "parse_tool_response E response =
     (if \<not> truthy response then Inl (RuntimeError ''Tool returned no content'')
      else
        (case response of
           JStr s \<Rightarrow>
             (case json_loads E s of
                Inl je \<Rightarrow> Inl (RuntimeError (''Invalid JSON from tool: '' @ je))
              | Inr v \<Rightarrow> Inr v)
         | JObj kvs \<Rightarrow> Inr response
         | _ \<Rightarrow> Inl (RuntimeError (''Unexpected response type: <class '' @ [CHR 0x27]
                          @ py_type_name response @ [CHR 0x27] @ ''>''))))"

subsection \<open>Log retrieval\<close>

text \<open>The arguments of the \<^verbatim>\<open>query_logs\<close> call (lines 110-114).\<close>

definition query_logs_arguments :: "env \<Rightarrow> alert \<Rightarrow> json" where
  "query_logs_arguments E a =
     JObj [(''host'', JStr (host a)),
           (''time_range'', JStr (fmt E (JInt (AGENT_LOG_TIMERANGE E)) @ ''m'')),
           (''search_query'', JStr ''(error OR exception OR failed)'')]"

definition retrieve_logs_try :: "env \<Rightarrow> alert \<Rightarrow> event list \<Rightarrow> (exn + json) \<times> event list" where
  "retrieve_logs_try E a t =
     (case wait_for (call_tool E ''splunk'' ''query_logs'' (query_logs_arguments E a) t) of
        (Inl e, t1) \<Rightarrow> (Inl e, t1)
      | (Inr logs_result, t1) \<Rightarrow>
         (case and_then (parse_tool_response E logs_result) (\<lambda>logs_result_obj.
               and_then (dict_get logs_result_obj ''logs'' (JArr [])) (\<lambda>logs.
               and_then (py_len logs) (\<lambda>n.
               and_then (dict_get logs_result_obj ''results_count'' (JInt n)) (\<lambda>cnt.
               Inr (logs, cnt))))) of
            Inl e \<Rightarrow> (Inl e, t1)
          | Inr (logs, cnt) \<Rightarrow>
             (Inr logs,
              log_activity (alert_id a) ''Logs Retrieved''
                (''Found '' @ py_str E cnt @ '' relevant log entries from Splunk'') ''complete'' t1)))"

definition retrieve_logs :: "env \<Rightarrow> alert \<Rightarrow> event list \<Rightarrow> (exn + json) \<times> event list" where
  "retrieve_logs E a t =
     (case retrieve_logs_try E a t of
        (Inl e, t1) \<Rightarrow>
          (if is_Exception e
           then (Inr (JArr []),
                 log_activity (alert_id a) ''Logs Retrieval'' (''Failed: '' @ str_exn E e) ''error'' t1)
           else (Inl e, t1))
      | (Inr logs, t1) \<Rightarrow> (Inr logs, t1))"

subsection \<open>Context enrichment\<close>

text \<open>
  The handler of \<^verbatim>\<open>_enrich_with_cmdb\<close> returns \<^verbatim>\<open>cmdb_data\<close> as it stands when the
  exception arrives: still \<^verbatim>\<open>{}\<close> if the call or the parsing failed, the parsed value if
  a later line failed.
\<close>

definition enrich_except :: "env \<Rightarrow> alert \<Rightarrow> exn \<Rightarrow> json \<Rightarrow> event list \<Rightarrow> (exn + json) \<times> event list" where
  "enrich_except E a e cmdb_data t =
     (if is_Exception e
      then (Inr cmdb_data,
            log_activity (alert_id a) ''CMDB Query'' (''Failed: '' @ str_exn E e) ''error'' t)
      else (Inl e, t))"

definition asset_info_arguments :: "alert \<Rightarrow> json" where
  "asset_info_arguments a = JObj [(''hostname'', JStr (host a))]"

definition enrich_with_cmdb :: "env \<Rightarrow> alert \<Rightarrow> json \<Rightarrow> event list \<Rightarrow> (exn + json) \<times> event list" where
  "enrich_with_cmdb E a logs t =
     (case wait_for (call_tool E ''cmdb'' ''get_asset_info'' (asset_info_arguments a) t) of
        (Inl e, t1) \<Rightarrow> enrich_except E a e (JObj []) t1
      | (Inr cmdb_result, t1) \<Rightarrow>
         (case parse_tool_response E cmdb_result of
            Inl e \<Rightarrow> enrich_except E a e (JObj []) t1
          | Inr cmdb_data \<Rightarrow>
             (case dict_get cmdb_data ''owner_team'' (JStr ''DevOps'') of
                Inl e \<Rightarrow> enrich_except E a e cmdb_data t1
              | Inr owner_team \<Rightarrow>
                 (case dict_get cmdb_data ''service'' (JStr ''DevOps Service'') of
                    Inl e \<Rightarrow> enrich_except E a e cmdb_data t1
                  | Inr service \<Rightarrow>
                     (Inr cmdb_data,
                      log_activity (alert_id a) ''Context Enriched''
                        (''Service: '' @ py_str E service @ '', Owner: '' @ py_str E owner_team)
                        ''complete'' t1)))))"

subsection \<open>Rule-based analysis\<close>

definition priority_map :: "((string \<times> json) \<times> string) list" where
  "priority_map =
     [((''Critical'', JStr ''High''), ''Critical''),
      ((''Critical'', JStr ''Medium''), ''High''),
      ((''High'', JStr ''High''), ''High''),
      ((''High'', JStr ''Medium''), ''Medium''),
      ((''Medium'', JStr ''High''), ''Medium'')]"

text \<open>\<^verbatim>\<open>table.get(key, default)\<close> with a tuple key: the key is hashed first.\<close>

definition table_get :: "((string \<times> json) \<times> string) list \<Rightarrow> string \<times> json \<Rightarrow> string \<Rightarrow> exn + string" where
  "table_get m k dflt =
     (if hashable (snd k) then Inr (case map_of m k of Some v \<Rightarrow> v | None \<Rightarrow> dflt)
      else Inl TypeError)"

text \<open>\<^verbatim>\<open>sum(1 for log in logs if 'error' in log.get('message', '').lower())\<close>\<close>

fun count_errors :: "json list \<Rightarrow> exn + int" where
  "count_errors [] = Inr 0"
| "count_errors (entry # logs) =
     (case dict_get entry ''message'' (JStr []) of
        Inl e \<Rightarrow> Inl e
      | Inr (JStr s) \<Rightarrow>
          (case count_errors logs of
             Inl e \<Rightarrow> Inl e
           | Inr n \<Rightarrow> Inr (if contains ''error'' (lower s) then n + 1 else n))
      | Inr _ \<Rightarrow> Inl AttributeError)"

text \<open>The lines of the section "Recent Log Entries", one per log entry.\<close>

fun log_lines :: "env \<Rightarrow> json list \<Rightarrow> exn + string list" where
  "log_lines E [] = Inr []"
| "log_lines E (entry # logs) =
     and_then (dict_get entry ''timestamp'' (JStr ''N/A'')) (\<lambda>ts.
     and_then (dict_get entry ''message'' (JStr ''No message'')) (\<lambda>m.
     and_then (py_slice 100 m) (\<lambda>m100.
     and_then (log_lines E logs) (\<lambda>ls.
     Inr ((''- ['' @ py_str E ts @ ''] '' @ py_str E m100) # ls)))))"

text \<open>\<^verbatim>\<open>sep.join(v)\<close>: every element must be a string.\<close>

fun str_items :: "json list \<Rightarrow> exn + string list" where
  "str_items [] = Inr []"
| "str_items (JStr s # xs) = and_then (str_items xs) (\<lambda>ss. Inr (s # ss))"
| "str_items (x # xs) = Inl TypeError"

definition join_strs :: "string \<Rightarrow> json \<Rightarrow> exn + string" where
  "join_strs sep v =
     and_then (py_iter v) (\<lambda>xs. and_then (str_items xs) (\<lambda>ss. Inr (join sep ss)))"

definition rule_based_analysis :: "env \<Rightarrow> alert \<Rightarrow> json \<Rightarrow> json \<Rightarrow> exn + json" where
  "rule_based_analysis E a logs cmdb_data =
     and_then (dict_get cmdb_data ''criticality'' (JStr ''Medium'')) (\<lambda>criticality.
     and_then (table_get priority_map (severity a, criticality) ''Medium'') (\<lambda>prio.
     and_then (py_iter logs) (\<lambda>ls.
     and_then (count_errors ls) (\<lambda>error_count.
     and_then (dict_get cmdb_data ''service'' (JStr ''Unknown'')) (\<lambda>service.
     and_then (py_slice 5 logs) (\<lambda>logs5.
     and_then (py_iter logs5) (\<lambda>ls5.
     and_then (log_lines E ls5) (\<lambda>entries.
     and_then (dict_get cmdb_data ''dependencies'' (JArr [])) (\<lambda>deps.
     and_then (join_strs '', '' deps) (\<lambda>dep_text.
     Inr (JObj
       [(''priority'', JStr prio),
        (''root_cause'', JStr (''Alert triggered: '' @ message a)),
        (''summary'', JStr (severity a @ '' Alert: '' @ take 50 (message a) @ '' on '' @ host a)),
        (''description'', JStr (
           ''\<newline>        **Alert Details:**''
         @ ''\<newline>        - Host: '' @ host a
         @ ''\<newline>        - Service: '' @ py_str E service
         @ ''\<newline>        - Severity: '' @ severity a
         @ ''\<newline>        - Timestamp: '' @ fmt_time E (timestamp a)
         @ ''\<newline>''
         @ ''\<newline>        **Message:**''
         @ ''\<newline>        '' @ message a
         @ ''\<newline>''
         @ ''\<newline>        **Analysis:**''
         @ ''\<newline>        - '' @ fmt E (JInt error_count) @ '' error entries found in logs''
         @ ''\<newline>        - Service criticality: '' @ py_str E criticality
         @ ''\<newline>        - Assigned priority: '' @ prio
         @ ''\<newline>''
         @ ''\<newline>        **Recent Log Entries:**''
         @ ''\<newline>        '' @ join ''\<newline>'' entries
         @ ''\<newline>''
         @ ''\<newline>        **Recommended Actions:**''
         @ ''\<newline>        1. Investigate the root cause based on log patterns''
         @ ''\<newline>        2. Check service dependencies: '' @ dep_text
         @ ''\<newline>        3. Monitor for recurring patterns''
         @ ''\<newline>        '')),
        (''issue_type'', JStr ''Task'')])))))))))))"

subsection \<open>LLM analysis\<close>

definition analysis_prompt :: "env \<Rightarrow> alert \<Rightarrow> json \<Rightarrow> json \<Rightarrow> exn + string" where
  "analysis_prompt E a logs cmdb_data =
     and_then (py_len logs) (\<lambda>n.
     and_then (py_slice 10 logs) (\<lambda>logs10.
     and_then (dict_get cmdb_data ''owner_team'' (JStr ''Unknown'')) (\<lambda>owner_team.
     and_then (dict_get cmdb_data ''service'' (JStr ''Unknown'')) (\<lambda>service.
     and_then (dict_get cmdb_data ''criticality'' (JStr ''Unknown'')) (\<lambda>criticality.
     and_then (dict_get cmdb_data ''dependencies'' (JArr [])) (\<lambda>deps.
     Inr (
        ''You are an expert SRE analyzing an incident alert. Provide your analysis in JSON format.''
      @ ''\<newline>''
      @ ''\<newline>            Alert Details:''
      @ ''\<newline>            - Severity: '' @ severity a
      @ ''\<newline>            - Host: '' @ host a
      @ ''\<newline>            - Message: '' @ message a
      @ ''\<newline>            - Timestamp: '' @ fmt_time E (timestamp a)
      @ ''\<newline>''
      @ ''\<newline>            Recent Logs (last '' @ fmt E (JInt n) @ '' entries):''
      @ ''\<newline>            '' @ json_dumps E logs10
      @ ''\<newline>''
      @ ''\<newline>            Asset Information:''
      @ ''\<newline>            - Owner Team: '' @ py_str E owner_team
      @ ''\<newline>            - Service: '' @ py_str E service
      @ ''\<newline>            - Criticality: '' @ py_str E criticality
      @ ''\<newline>            - Dependencies: '' @ py_str E deps
      @ ''\<newline>''
      @ ''\<newline>            Analyze and provide:''
      @ ''\<newline>            1. Priority (Critical/High/Medium/Low)''
      @ ''\<newline>            2. Root cause summary''
      @ ''\<newline>            3. Ticket summary (concise title)''
      @ ''\<newline>            4. Detailed description for the ticket''
      @ ''\<newline>            5. The JSON must include a valid Jira issue_type from [Bug, Task, Story, Epic], defaulting to \"Task\" if unsure.''
      @ ''\<newline>''
      @ ''\<newline>            Response format (JSON only):''
      @ ''\<newline>            {''
      @ ''\<newline>                \"priority\": \"High\",''
      @ ''\<newline>                \"root_cause\": \"Brief technical summary\",''
      @ ''\<newline>                \"summary\": \"Concise ticket title\",''
      @ ''\<newline>                \"description\": \"Detailed description with timestamps, affected services, and recommended actions\",''
      @ ''\<newline>                \"issue_type\": \"Task\"''
      @ ''\<newline>            }'')))))))"

text \<open>Lines 380-383: the text between code fences, if there are any.\<close>

definition extract_json_text :: "string \<Rightarrow> exn + string" where
  "extract_json_text analysis_text =
     (if contains ''```json'' analysis_text then
        and_then (py_nth (py_split analysis_text ''```json'') 1) (\<lambda>x.
        and_then (py_nth (py_split x ''```'') 0) (\<lambda>y. Inr (strip y)))
      else if contains ''```'' analysis_text then
        and_then (py_nth (py_split analysis_text ''```'') 1) (\<lambda>x.
        and_then (py_nth (py_split x ''```'') 0) (\<lambda>y. Inr (strip y)))
      else Inr analysis_text)"

text \<open>
  The \<^verbatim>\<open>try\<close> block of \<^verbatim>\<open>_llm_analysis\<close> (lines 368-386), given the provider's answer to
  the prompt: the text of the completion, the fences removed, parsed.
\<close>

definition llm_analysis_try :: "env \<Rightarrow> (string \<times> string) + string \<Rightarrow> exn + json" where
  "llm_analysis_try E answer =
     and_then (case answer of Inl (ty, m) \<Rightarrow> Inl (OtherError ty m) | Inr text \<Rightarrow> Inr text) (\<lambda>text.
     and_then (extract_json_text (if LLM_PROVIDER E = ''gemini'' then strip text else text)) (\<lambda>analysis_text.
     (case json_loads E analysis_text of
        Inl je \<Rightarrow> Inl (JSONDecodeError je)
      | Inr analysis \<Rightarrow> Inr analysis)))"

definition llm_analysis :: "env \<Rightarrow> alert \<Rightarrow> json \<Rightarrow> json \<Rightarrow> event list \<Rightarrow> (exn + json) \<times> event list" where
  "llm_analysis E a logs cmdb_data t =
     (case analysis_prompt E a logs cmdb_data of
        Inl e \<Rightarrow> (Inl e, t)
      | Inr prompt \<Rightarrow>
         (case llm_analysis_try E (llm E t prompt) of
            Inl e \<Rightarrow>
              (if is_Exception e then (rule_based_analysis E a logs cmdb_data, t @ [LLMCall prompt])
               else (Inl e, t @ [LLMCall prompt]))
          | Inr analysis \<Rightarrow> (Inr analysis, t @ [LLMCall prompt])))"

subsection \<open>The analysis step\<close>

definition fallback_analysis :: "alert \<Rightarrow> json" where
  "fallback_analysis a =
     JObj [(''priority'', JStr (severity a)),
           (''summary'', JStr (severity a @ '' alert on '' @ host a)),
           (''description'', JStr (message a))]"

text \<open>The time the provider call of \<^verbatim>\<open>_llm_analysis\<close> takes on these inputs.\<close>

definition llm_elapsed :: "env \<Rightarrow> alert \<Rightarrow> json \<Rightarrow> json \<Rightarrow> event list \<Rightarrow> real" where
  "llm_elapsed E a logs cmdb_data t =
     (case analysis_prompt E a logs cmdb_data of
        Inl e \<Rightarrow> 0
      | Inr prompt \<Rightarrow> llm_seconds E t prompt)"

definition analyze_incident_try :: "env \<Rightarrow> alert \<Rightarrow> json \<Rightarrow> json \<Rightarrow> event list \<Rightarrow> (exn + json) \<times> event list" where
  "analyze_incident_try E a logs cmdb_data t =
     (case (if setup_llm E
            then wait_for_blocking 30 (llm_elapsed E a logs cmdb_data t)
                   (llm_analysis E a logs cmdb_data t)
            else (rule_based_analysis E a logs cmdb_data, t)) of
        (Inl e, t1) \<Rightarrow> (Inl e, t1)
      | (Inr analysis, t1) \<Rightarrow>
         (case analysis of
            JObj kvs \<Rightarrow>
              (case dict_get analysis ''priority'' (JStr ''Unknown'') of
                 Inl e \<Rightarrow> (Inl e, t1)
               | Inr p \<Rightarrow>
                  (Inr analysis,
                   log_activity (alert_id a) ''Analysis Complete''
                     (''Priority: '' @ py_str E p @ '', Root cause identified'') ''complete'' t1))
          | _ \<Rightarrow> (Inl (RuntimeError ''Analysis did not return a dict''), t1)))"

definition analyze_incident :: "env \<Rightarrow> alert \<Rightarrow> json \<Rightarrow> json \<Rightarrow> event list \<Rightarrow> (exn + json) \<times> event list" where
  "analyze_incident E a logs cmdb_data t =
     (case analyze_incident_try E a logs cmdb_data t of
        (Inl e, t1) \<Rightarrow> (if is_Exception e then (Inr (fallback_analysis a), t1) else (Inl e, t1))
      | (Inr analysis, t1) \<Rightarrow> (Inr analysis, t1))"

subsection \<open>Ticket creation\<close>

text \<open>Validation of one \<^verbatim>\<open>str\<close> field and of the \<^verbatim>\<open>Optional[str]\<close> field of \<^verbatim>\<open>TicketResponse\<close>.\<close>

definition str_field :: "json \<Rightarrow> exn + string" where
  "str_field v = (case v of JStr s \<Rightarrow> Inr s | _ \<Rightarrow> Inl ValidationError)"

definition opt_str_field :: "json \<Rightarrow> exn + string option" where
  "opt_str_field v = (case v of JStr s \<Rightarrow> Inr (Some s) | JNull \<Rightarrow> Inr None | _ \<Rightarrow> Inl ValidationError)"

definition TicketResponse ::
  "json \<Rightarrow> json \<Rightarrow> json \<Rightarrow> json \<Rightarrow> json \<Rightarrow> json \<Rightarrow> real \<Rightarrow> real \<Rightarrow> exn + ticket_response" where
  "TicketResponse tid p s d asg u c pt =
     and_then (str_field tid) (\<lambda>tid'.
     and_then (str_field p) (\<lambda>p'.
     and_then (str_field s) (\<lambda>s'.
     and_then (str_field d) (\<lambda>d'.
     and_then (str_field asg) (\<lambda>asg'.
     and_then (opt_str_field u) (\<lambda>u'.
     Inr \<lparr>ticket_id = tid', priority = p', summary = s', description = d',
          assigned_to = asg', url = u', created_at = c, processing_time = pt\<rparr>))))))"

text \<open>The argument dict of the \<^verbatim>\<open>create_ticket\<close> call (lines 207-214).\<close>

definition jira_arguments :: "env \<Rightarrow> json \<Rightarrow> exn + json" where
  "jira_arguments E analysis =
     and_then (dict_index analysis ''summary'') (\<lambda>s.
     and_then (dict_index analysis ''description'') (\<lambda>d.
     and_then (dict_index analysis ''priority'') (\<lambda>p.
     and_then (dict_get analysis ''assigned_to'' (JStr ''DevOps'')) (\<lambda>asg.
     and_then (dict_get analysis ''issue_type'' (JStr ''Task'')) (\<lambda>ity.
     Inr (JObj [(''project'', JStr (JIRA_PROJECT_KEY E)),
                (''summary'', s),
                (''description'', d),
                (''priority'', p),
                (''assignee'', asg),
                (''issue_type'', ity)]))))))"

text \<open>Lines 219-241, from the text the tool returned.\<close>

definition ticket_from_result ::
  "env \<Rightarrow> alert \<Rightarrow> json \<Rightarrow> json \<Rightarrow> event list \<Rightarrow> (exn + ticket_response) \<times> event list" where
  "ticket_from_result E a analysis ticket_result t1 =
     (case and_then (parse_tool_response E ticket_result) (\<lambda>ticket_data.
           and_then (dict_get ticket_data ''ticket_id'' (JStr (JIRA_PROJECT_KEY E @ ''-XXXX''))) (\<lambda>tid.
           and_then (dict_get ticket_data ''url'' (JStr [])) (\<lambda>ticket_url.
           Inr (tid, ticket_url)))) of
        Inl e \<Rightarrow> (Inl e, t1)
      | Inr (tid, ticket_url) \<Rightarrow>
         (let pt = clock E t1 - timestamp a;
              t2 = t1 @ [ClockRead] in
          case dict_get analysis ''assigned_to'' (JStr ''DevOps'') of
            Inl e \<Rightarrow> (Inl e, t2)
          | Inr asg \<Rightarrow>
             (let t3 = log_activity (alert_id a) ''Ticket Created''
                         (py_str E tid @ '' assigned to '' @ py_str E asg) ''complete'' t2 in
              case and_then (dict_index analysis ''priority'') (\<lambda>p.
                   and_then (dict_index analysis ''summary'') (\<lambda>s.
                   and_then (dict_index analysis ''description'') (\<lambda>d.
                   and_then (dict_get analysis ''assigned_to'' (JStr ''DevOps'')) (\<lambda>asg2.
                   Inr (p, s, d, asg2))))) of
                Inl e \<Rightarrow> (Inl e, t3)
              | Inr (p, s, d, asg2) \<Rightarrow>
                 (TicketResponse tid p s d asg2 ticket_url (clock E t3) pt, t3 @ [ClockRead]))))"

definition create_jira_ticket_try ::
  "env \<Rightarrow> alert \<Rightarrow> json \<Rightarrow> event list \<Rightarrow> (exn + ticket_response) \<times> event list" where
  "create_jira_ticket_try E a analysis t =
     (case jira_arguments E analysis of
        Inl e \<Rightarrow> (Inl e, t)
      | Inr arguments \<Rightarrow>
         (case wait_for (call_tool E ''jira'' ''create_ticket'' arguments t) of
            (Inl e, t1) \<Rightarrow> (Inl e, t1)
          | (Inr ticket_result, t1) \<Rightarrow> ticket_from_result E a analysis ticket_result t1))"

definition create_jira_ticket ::
  "env \<Rightarrow> alert \<Rightarrow> json \<Rightarrow> event list \<Rightarrow> (exn + ticket_response) \<times> event list" where
  "create_jira_ticket E a analysis t =
     (case create_jira_ticket_try E a analysis t of
        (Inl e, t1) \<Rightarrow>
          (if is_Exception e
           then (Inl (HTTPException 500 (''Failed to create ticket: '' @ str_exn E e)),
                 log_activity (alert_id a) ''Ticket Creation'' (''Failed: '' @ str_exn E e) ''error'' t1)
           else (Inl e, t1))
      | (Inr ticket, t1) \<Rightarrow> (Inr ticket, t1))"

subsection \<open>Secondary incident and persistence\<close>

text \<open>\<^verbatim>\<open>_map_priority_to_urgency\<close> and \<^verbatim>\<open>_map_priority_to_impact\<close>: the same table.\<close>

definition urgency_map :: "(json \<times> string) list" where
  "urgency_map = [(JStr ''Critical'', ''1''), (JStr ''High'', ''2''), (JStr ''Medium'', ''3''), (JStr ''Low'', ''3'')]"

definition map_priority_to_urgency :: "json \<Rightarrow> exn + string" where
  "map_priority_to_urgency p =
     (if hashable p then Inr (case map_of urgency_map p of Some v \<Rightarrow> v | None \<Rightarrow> ''3'')
      else Inl TypeError)"

definition map_priority_to_impact :: "json \<Rightarrow> exn + string" where
  "map_priority_to_impact p =
     (if hashable p then Inr (case map_of urgency_map p of Some v \<Rightarrow> v | None \<Rightarrow> ''3'')
      else Inl TypeError)"

definition servicenow_arguments :: "alert \<Rightarrow> json \<Rightarrow> exn + json" where
  "servicenow_arguments a analysis =
     and_then (dict_index analysis ''summary'') (\<lambda>s.
     and_then (dict_index analysis ''description'') (\<lambda>d.
     and_then (dict_index analysis ''priority'') (\<lambda>p.
     and_then (map_priority_to_urgency p) (\<lambda>urg.
     and_then (dict_index analysis ''priority'') (\<lambda>p2.
     and_then (map_priority_to_impact p2) (\<lambda>imp.
     Inr (JObj [(''hostname'', JStr (host a)),
                (''short_description'', s),
                (''description'', d),
                (''urgency'', JStr urg),
                (''impact'', JStr imp)])))))))"

definition create_servicenow_incident_try ::
  "env \<Rightarrow> alert \<Rightarrow> json \<Rightarrow> event list \<Rightarrow> (exn + unit) \<times> event list" where
  "create_servicenow_incident_try E a analysis t =
     (case servicenow_arguments a analysis of
        Inl e \<Rightarrow> (Inl e, t)
      | Inr arguments \<Rightarrow>
         (case wait_for (call_tool E ''cmdb'' ''create_incident'' arguments t) of
            (Inl e, t1) \<Rightarrow> (Inl e, t1)
          | (Inr incident_result, t1) \<Rightarrow>
             (case and_then (parse_tool_response E incident_result) (\<lambda>incident_data.
                   dict_get incident_data ''incident_number'' (JStr ''SN-XXXX'')) of
                Inl e \<Rightarrow> (Inl e, t1)
              | Inr incident_number \<Rightarrow>
                 (Inr (),
                  log_activity (alert_id a) ''ServiceNow Incident Created''
                    (''Incident '' @ py_str E incident_number @ '' created in ServiceNow'')
                    ''complete'' t1))))"

definition create_servicenow_incident ::
  "env \<Rightarrow> alert \<Rightarrow> json \<Rightarrow> event list \<Rightarrow> (exn + unit) \<times> event list" where
  "create_servicenow_incident E a analysis t =
     (case create_servicenow_incident_try E a analysis t of
        (Inl e, t1) \<Rightarrow>
          (if is_Exception e
           then (Inr (),
                 log_activity (alert_id a) ''ServiceNow Incident Creation''
                   (''Failed: '' @ str_exn E e) ''error'' t1)
           else (Inl e, t1))
      | (Inr u, t1) \<Rightarrow> (Inr (), t1))"

text \<open>
  \<^verbatim>\<open>_save_ticket_record\<close> has no handler: a missing key or a refusal of the session is
  raised to \<^verbatim>\<open>process_alert\<close>.
\<close>

definition save_ticket_record ::
  "env \<Rightarrow> alert \<Rightarrow> json \<Rightarrow> ticket_response \<Rightarrow> real \<Rightarrow> event list \<Rightarrow> (exn + unit) \<times> event list" where
  "save_ticket_record E a analysis ticket start_time t =
     (case and_then (dict_index analysis ''priority'') (\<lambda>p.
           and_then (dict_index analysis ''summary'') (\<lambda>s.
           and_then (dict_index analysis ''description'') (\<lambda>d.
           Inr \<lparr>tr_ticket_id = ticket_id ticket, tr_alert_id = alert_id a, tr_host = host a,
                tr_severity = severity a, tr_priority = p, tr_summary = s, tr_description = d,
                tr_assigned_to = assigned_to ticket, tr_processing_time = processing_time ticket,
                tr_status = ''created''\<rparr>))) of
        Inl e \<Rightarrow> (Inl e, t)
      | Inr ticket_rec \<Rightarrow>
         (case db_commit E t ticket_rec of
            Some e \<Rightarrow> (Inl e, t @ [SaveTicket ticket_rec])
          | None \<Rightarrow> (Inr (), t @ [SaveTicket ticket_rec])))"

subsection \<open>The pipeline\<close>

text \<open>Lines 72-80: the clock is read for \<^verbatim>\<open>start_time\<close>, then the receipt is logged.\<close>

definition alert_received :: "alert \<Rightarrow> event list \<Rightarrow> event list" where
  "alert_received a t =
     log_activity (alert_id a) ''Alert Received''
       (severity a @ '' alert on '' @ host a @ '': '' @ message a) ''processing'' (t @ [ClockRead])"

definition process_alert :: "env \<Rightarrow> alert \<Rightarrow> event list \<Rightarrow> (exn + ticket_response) \<times> event list" where
  "process_alert E a t =
     (let start_time = clock E t;
          t1 = alert_received a t in
      case retrieve_logs E a t1 of
        (Inl e, t2) \<Rightarrow> (Inl e, t2)
      | (Inr logs, t2) \<Rightarrow>
     (case enrich_with_cmdb E a logs t2 of
        (Inl e, t3) \<Rightarrow> (Inl e, t3)
      | (Inr cmdb_data, t3) \<Rightarrow>
     (case analyze_incident E a logs cmdb_data t3 of
        (Inl e, t4) \<Rightarrow> (Inl e, t4)
      | (Inr analysis, t4) \<Rightarrow>
     (case create_jira_ticket E a analysis t4 of
        (Inl e, t5) \<Rightarrow> (Inl e, t5)
      | (Inr ticket, t5) \<Rightarrow>
     (case create_servicenow_incident E a analysis t5 of
        (Inl e, t6) \<Rightarrow> (Inl e, t6)
      | (Inr u, t6) \<Rightarrow>
     (case save_ticket_record E a analysis ticket start_time t6 of
        (Inl e, t7) \<Rightarrow> (Inl e, t7)
      | (Inr u2, t7) \<Rightarrow> (Inr ticket, t7)))))))"

section \<open>The batch scan (\<^verbatim>\<open>scan_and_create_alerts\<close>)\<close>

text \<open>One value of the dict \<^verbatim>\<open>affected_hosts\<close>.\<close>

record host_data =
  hd_host :: json
  error_count :: int
  messages :: "json list"
  hd_severity :: string
  latest_timestamp :: json

text \<open>
  Keys of a Python dict are compared with \<^verbatim>\<open>==\<close>: \<^verbatim>\<open>True\<close>, \<^verbatim>\<open>1\<close> and \<^verbatim>\<open>1.0\<close> are one
  key. \<open>py_key\<close> gives each hashable value the representative of its class.
\<close>

definition py_key :: "json \<Rightarrow> json" where
  "py_key v = (case v of
       JBool b \<Rightarrow> JInt (if b then 1 else 0)
     | JFloat r \<Rightarrow> (if r = of_int (floor r) then JInt (floor r) else JFloat r)
     | _ \<Rightarrow> v)"

type_synonym hosts = "(json \<times> host_data) list"

definition update_host :: "json \<Rightarrow> (host_data \<Rightarrow> host_data) \<Rightarrow> hosts \<Rightarrow> hosts" where
  "update_host k f hs = map (\<lambda>(k', d). if k' = k then (k', f d) else (k', d)) hs"

definition critical_keywords :: "string list" where
  "critical_keywords = [''critical'', ''fatal'', ''panic'', ''outage'']"

definition high_keywords :: "string list" where
  "high_keywords = [''high'', ''severe'', ''major'']"

text \<open>The body of the loop over the events (lines 475-494).\<close>

definition scan_event :: "env \<Rightarrow> json \<Rightarrow> hosts \<Rightarrow> event list \<Rightarrow> (exn + hosts) \<times> event list" where
  "scan_event E ev hs t =
     (case and_then (dict_get ev ''host'' (JStr ''unknown'')) (\<lambda>h.
           and_then (dict_get ev ''_raw'' (JStr [])) (\<lambda>raw_message.
           if hashable h then Inr (h, raw_message) else Inl TypeError)) of
        Inl e \<Rightarrow> (Inl e, t)
      | Inr (h, raw_message) \<Rightarrow>
         (let (hs1, t1) =
                (if map_of hs (py_key h) = None
                 then (hs @ [(py_key h,
                         \<lparr>hd_host = h, error_count = 0, messages = [], hd_severity = ''Medium'',
                          latest_timestamp =
                            (case dict_get ev ''_time'' (JStr (isoformat E (clock E t))) of
                               Inr ts \<Rightarrow> ts | Inl e \<Rightarrow> JNull)\<rparr>)],
                       t @ [ClockRead])
                 else (hs, t)) in
          case py_slice 200 raw_message of
            Inl e \<Rightarrow> (Inl e, t1)
          | Inr m \<Rightarrow>
             (let hs2 = update_host (py_key h)
                          (\<lambda>d. d\<lparr>error_count := error_count d + 1, messages := messages d @ [m]\<rparr>) hs1 in
              case raw_message of
                JStr s \<Rightarrow>
                  (if list_ex (\<lambda>keyword. contains keyword (lower s)) critical_keywords
                   then (Inr (update_host (py_key h) (\<lambda>d. d\<lparr>hd_severity := ''Critical''\<rparr>) hs2), t1)
                   else if list_ex (\<lambda>keyword. contains keyword (lower s)) high_keywords
                   then (Inr (update_host (py_key h) (\<lambda>d. d\<lparr>hd_severity := ''High''\<rparr>) hs2), t1)
                   else (Inr hs2, t1))
              | _ \<Rightarrow> (Inl AttributeError, t1))))"

fun fold_events :: "env \<Rightarrow> json list \<Rightarrow> hosts \<Rightarrow> event list \<Rightarrow> (exn + hosts) \<times> event list" where
  "fold_events E [] hs t = (Inr hs, t)"
| "fold_events E (ev # evs) hs t =
     (case scan_event E ev hs t of
        (Inl e, t1) \<Rightarrow> (Inl e, t1)
      | (Inr hs1, t1) \<Rightarrow> fold_events E evs hs1 t1)"

text \<open>The alert synthesized for one host (lines 502-516 and 522): two readings of the clock.\<close>

definition scan_alert_id :: "env \<Rightarrow> host_data \<Rightarrow> event list \<Rightarrow> string" where
  "scan_alert_id E d t =
     ''auto-scan-'' @ py_str E (hd_host d) @ ''-'' @ fmt E (JInt (floor (clock E t)))"

definition scan_alert_message :: "env \<Rightarrow> string \<Rightarrow> host_data \<Rightarrow> exn + string" where
  "scan_alert_message E time_range d =
     and_then (if messages d = [] then Inl IndexError else Inr (last (messages d))) (\<lambda>latest.
     and_then (py_slice 100 latest) (\<lambda>latest100.
     Inr (''Multiple errors detected on '' @ py_str E (hd_host d) @ '': ''
          @ fmt E (JInt (error_count d)) @ '' errors in '' @ time_range
          @ ''. Latest: '' @ py_str E latest100 @ ''...'')))"

definition scan_alert_metadata :: "string \<Rightarrow> host_data \<Rightarrow> json" where
  "scan_alert_metadata time_range d =
     JObj [(''scan_source'', JStr ''splunk_auto_scan''),
           (''error_count'', JInt (error_count d)),
           (''time_range'', JStr time_range),
           (''error_messages'', JArr (take 5 (messages d)))]"

text \<open>\<^verbatim>\<open>AlertData(**alert_data)\<close>: the host must be a string.\<close>

definition AlertData :: "string \<Rightarrow> string \<Rightarrow> string \<Rightarrow> json \<Rightarrow> real \<Rightarrow> json \<Rightarrow> exn + alert" where
  "AlertData aid sev msg h ts md =
     and_then (str_field h) (\<lambda>h'.
     Inr \<lparr>alert_id = aid, severity = sev, message = msg, host = h', timestamp = ts, metadata = md\<rparr>)"

text \<open>One entry of \<^verbatim>\<open>processed_alerts\<close> and the report of the scan.\<close>

record alert_report =
  ar_alert_id :: string
  ar_host :: json
  ar_severity :: string
  ar_error_count :: int
  ar_ticket :: "ticket_response option"
  ar_activity_log :: "json list"
  ar_status :: string
  ar_error :: "string option"

datatype scan_report =
    ScanCompleted string int int int int "alert_report list"
  | ScanFailed string string

text \<open>The \<^verbatim>\<open>try\<close> block of the loop over the hosts (lines 519-551).\<close>

definition scan_host_try ::
  "env \<Rightarrow> string \<Rightarrow> string \<Rightarrow> json \<Rightarrow> host_data \<Rightarrow> event list \<Rightarrow> (exn + alert_report) \<times> event list" where
  "scan_host_try E aid msg md d t =
     (case AlertData aid (hd_severity d) msg (hd_host d) (clock E t) md of
        Inl e \<Rightarrow> (Inl e, t @ [ClockRead])
      | Inr a \<Rightarrow>
         (case process_alert E a (t @ [ClockRead]) of
            (Inl e, t1) \<Rightarrow> (Inl e, t1)
          | (Inr ticket, t1) \<Rightarrow>
             (case db_activities E t1 aid of
                Inl e \<Rightarrow> (Inl e, t1 @ [QueryActivities aid])
              | Inr activity_log \<Rightarrow>
                 (Inr \<lparr>ar_alert_id = aid, ar_host = hd_host d, ar_severity = hd_severity d,
                       ar_error_count = error_count d, ar_ticket = Some ticket,
                       ar_activity_log = activity_log, ar_status = ''processed'',
                       ar_error = None\<rparr>,
                  t1 @ [QueryActivities aid]))))"

text \<open>The body of the loop over the hosts (lines 499-562).\<close>

definition scan_host ::
  "env \<Rightarrow> string \<Rightarrow> host_data \<Rightarrow> event list \<Rightarrow> (exn + alert_report) \<times> event list" where
  "scan_host E time_range d t =
     (let aid = scan_alert_id E d t;
          t1 = t @ [ClockRead] in
      case scan_alert_message E time_range d of
        Inl e \<Rightarrow> (Inl e, t1)
      | Inr msg \<Rightarrow>
         (case scan_host_try E aid msg (scan_alert_metadata time_range d) d t1 of
            (Inl e, t2) \<Rightarrow>
              (if is_Exception e
               then (Inr \<lparr>ar_alert_id = aid, ar_host = hd_host d, ar_severity = hd_severity d,
                          ar_error_count = error_count d, ar_ticket = None, ar_activity_log = [],
                          ar_status = ''failed'', ar_error = Some (str_exn E e)\<rparr>, t2)
               else (Inl e, t2))
          | (Inr r, t2) \<Rightarrow> (Inr r, t2)))"

fun scan_hosts ::
  "env \<Rightarrow> string \<Rightarrow> host_data list \<Rightarrow> event list \<Rightarrow> (exn + alert_report list) \<times> event list" where
  "scan_hosts E time_range [] t = (Inr [], t)"
| "scan_hosts E time_range (d # ds) t =
     (case scan_host E time_range d t of
        (Inl e, t1) \<Rightarrow> (Inl e, t1)
      | (Inr r, t1) \<Rightarrow>
         (case scan_hosts E time_range ds t1 of
            (Inl e, t2) \<Rightarrow> (Inl e, t2)
          | (Inr rs, t2) \<Rightarrow> (Inr (r # rs), t2)))"

text \<open>The arguments of the search (lines 458-462).\<close>

definition search_arguments :: json where
  "search_arguments =
     JObj [(''search_term'', JStr ''index=* (error OR exception OR failed OR fatal OR timeout) | head 1000 | table _time, host, source, _raw''),
           (''time_range'', JStr ''24h''),
           (''max_results'', JInt 1000)]"

definition scan_try :: "env \<Rightarrow> string \<Rightarrow> event list \<Rightarrow> (exn + scan_report) \<times> event list" where
  "scan_try E time_range t =
     (case wait_for (call_tool E ''splunk'' ''search_recent'' search_arguments t) of
        (Inl e, t1) \<Rightarrow> (Inl e, t1)
      | (Inr search_result, t1) \<Rightarrow>
         (case and_then (parse_tool_response E search_result) (\<lambda>search_data.
               and_then (dict_get search_data ''results'' (JArr [])) (\<lambda>error_events.
               and_then (py_iter error_events) (\<lambda>evs. Inr (error_events, evs)))) of
            Inl e \<Rightarrow> (Inl e, t1)
          | Inr (error_events, evs) \<Rightarrow>
             (case fold_events E evs [] t1 of
                (Inl e, t2) \<Rightarrow> (Inl e, t2)
              | (Inr affected_hosts, t2) \<Rightarrow>
                 (case scan_hosts E time_range (map snd affected_hosts) t2 of
                    (Inl e, t3) \<Rightarrow> (Inl e, t3)
                  | (Inr processed_alerts, t3) \<Rightarrow>
                     (case py_len error_events of
                        Inl e \<Rightarrow> (Inl e, t3)
                      | Inr total_events \<Rightarrow>
                         (Inr (ScanCompleted time_range total_events (int (length affected_hosts))
                                 (int (length (filter (\<lambda>r. ar_status r = ''processed'') processed_alerts)))
                                 (int (length (filter (\<lambda>r. ar_status r = ''failed'') processed_alerts)))
                                 processed_alerts), t3))))))"

definition scan_and_create_alerts :: "env \<Rightarrow> string \<Rightarrow> event list \<Rightarrow> (exn + scan_report) \<times> event list" where
  "scan_and_create_alerts E time_range t =
     (case scan_try E time_range t of
        (Inl e, t1) \<Rightarrow>
          (if is_Exception e then (Inr (ScanFailed (str_exn E e) time_range), t1) else (Inl e, t1))
      | (Inr r, t1) \<Rightarrow> (Inr r, t1))"

section \<open>Vocabulary of the properties and example worlds\<close>

text \<open>An outcome that is a value or an exception of class \<^verbatim>\<open>Exception\<close>.\<close>

definition exc :: "exn + 'a \<Rightarrow> bool" where
  "exc r = (r \<noteq> Inl CancelledError)"

text \<open>A content entry that is an object whose type is not \<^verbatim>\<open>"text"\<close>.\<close>

definition no_text_block :: "json \<Rightarrow> bool" where
  "no_text_block c = (case c of JObj fs \<Rightarrow> map_of fs ''type'' \<noteq> Some (JStr ''text'') | _ \<Rightarrow> False)"

text \<open>
  The events of the steps after ticket creation: the \<^verbatim>\<open>create_incident\<close> call of the
  secondary incident, and the ticket record handed to the session.
\<close>

fun later_step :: "event \<Rightarrow> bool" where
  "later_step (ToolCall server tool args) = (server = ''cmdb'' \<and> tool = ''create_incident'')"
| "later_step (SaveTicket r) = True"
| "later_step ev = False"

text \<open>The two activity entries only \<^verbatim>\<open>_create_jira_ticket\<close> writes.\<close>

fun ticket_step :: "event \<Rightarrow> bool" where
  "ticket_step (LogActivity aid action detail status) =
     (action = ''Ticket Created'' \<or> action = ''Ticket Creation'')"
| "ticket_step ev = False"

text \<open>
  Example worlds, for running the model on concrete inputs. A backend answers by server and
  tool only; \<open>example_loads\<close> is \<^verbatim>\<open>json.loads\<close> on the few texts the examples use;
  \<open>example_fmt\<close> and \<open>example_exn_text\<close> stand for the interpreter's texts.
\<close>

definition text_reply :: "string \<Rightarrow> rpc_root" where
  "text_reply s = RpcResult [(''content'', JArr [JObj [(''type'', JStr ''text''), (''text'', JStr s)]])]"

definition example_loads :: "string \<Rightarrow> string + json" where
  "example_loads s =
     (if s = ''{\"logs\": [], \"results_count\": 0}''
        then Inr (JObj [(''logs'', JArr []), (''results_count'', JInt 0)])
      else if s = ''{\"status\": \"created\"}''
        then Inr (JObj [(''status'', JStr ''created'')])
      else if s = ''[]'' then Inr (JArr [])
      else if s = ''{\"priority\": [\"High\"], \"summary\": \"s\", \"description\": \"d\"}''
        then Inr (JObj [(''priority'', JArr [JStr ''High'']), (''summary'', JStr ''s''),
                        (''description'', JStr ''d'')])
      else if s = ''{\"incident_number\": \"INC1\"}''
        then Inr (JObj [(''incident_number'', JStr ''INC1'')])
      else if s = ''{\"priority\": \"Low\", \"summary\": \"s\", \"description\": \"d\"}''
        then Inr (JObj [(''priority'', JStr ''Low''), (''summary'', JStr ''s''),
                        (''description'', JStr ''d'')])
      else Inl ''Expecting value: line 1 column 1 (char 0)'')"

definition example_fmt :: "json \<Rightarrow> string" where
  "example_fmt v = (if v = JInt 0 then ''0'' else if v = JInt 30 then ''30'' else ''?'')"

definition example_exn_text :: "exn \<Rightarrow> string" where
  "example_exn_text e = (case e of
       AttributeError \<Rightarrow> ''object has no attribute''
     | TypeError \<Rightarrow> ''unsupported type''
     | ValidationError \<Rightarrow> ''validation error for TicketResponse''
     | IndexError \<Rightarrow> ''list index out of range''
     | HTTPException n d \<Rightarrow> ''500: '' @ d
     | _ \<Rightarrow> [])"

definition example_env ::
  "(string \<Rightarrow> string \<Rightarrow> exn + rpc_root) \<Rightarrow> (string \<times> string) + string \<Rightarrow> string \<Rightarrow> env" where
  "example_env backends completion key =
     \<lparr>transport = (\<lambda>h server tool args. backends server tool),
      llm = (\<lambda>h prompt. completion),
      llm_seconds = (\<lambda>h prompt. 1),
      json_loads = example_loads,
      json_dumps = (\<lambda>v. ''[]''),
      fmt = example_fmt,
      fmt_time = (\<lambda>r. ''2024-01-01 00:00:00''),
      isoformat = (\<lambda>r. ''2024-01-01T00:00:00''),
      exn_text = example_exn_text,
      clock = (\<lambda>h. 0),
      db_commit = (\<lambda>h r. None),
      db_activities = (\<lambda>h aid. Inr []),
      LLM_PROVIDER = ''gemini'',
      GEMINI_API_KEY = key,
      ANTHROPIC_API_KEY = [],
      JIRA_PROJECT_KEY = ''OPS'',
      AGENT_LOG_TIMERANGE = 30\<rparr>"

definition backends_down :: "string \<Rightarrow> string \<Rightarrow> exn + rpc_root" where
  "backends_down server tool = Inl (OtherError ''ConnectionError'' ''backend unreachable'')"

definition image_only :: "string \<Rightarrow> string \<Rightarrow> exn + rpc_root" where
  "image_only server tool = Inr (RpcResult [(''content'', JArr [JObj [(''type'', JStr ''image'')]])])"

definition only_jira :: "string \<Rightarrow> string \<Rightarrow> exn + rpc_root" where
  "only_jira server tool =
     (if server = ''jira'' then Inr (text_reply ''{\"status\": \"created\"}'')
      else Inl (OtherError ''ConnectionError'' ''backend unreachable''))"

text \<open>A world whose provider answers a valid analysis, 31 seconds after the call.\<close>

definition slow_llm_env :: env where
  "slow_llm_env =
     (example_env backends_down
        (Inr ''{\"priority\": \"Low\", \"summary\": \"s\", \"description\": \"d\"}'') ''key'')
       \<lparr>llm_seconds := (\<lambda>h prompt. 31)\<rparr>"

definition example_alert :: alert where
  "example_alert = \<lparr>alert_id = ''a-1'', severity = ''Critical'', message = ''CPU at 99%'',
      host = ''h1'', timestamp = 0, metadata = JObj []\<rparr>"

text \<open>
  Inputs of the shape the pipeline expects: the logs are a list of objects whose message, if
  any, is a string; the enrichment data is an object whose criticality, if any, can be hashed
  and whose dependencies, if any, are a list of strings.
\<close>

definition log_entry_ok :: "json \<Rightarrow> bool" where
  "log_entry_ok entry = (case entry of
       JObj fs \<Rightarrow> (case map_of fs ''message'' of None \<Rightarrow> True | Some (JStr s) \<Rightarrow> True | Some _ \<Rightarrow> False)
     | _ \<Rightarrow> False)"

fun is_JStr :: "json \<Rightarrow> bool" where
  "is_JStr (JStr s) = True"
| "is_JStr v = False"

definition inputs_ok :: "json \<Rightarrow> json \<Rightarrow> bool" where
  "inputs_ok logs cmdb_data =
     (case (logs, cmdb_data) of
        (JArr xs, JObj fs) \<Rightarrow>
          list_all log_entry_ok xs \<and>
          (case map_of fs ''criticality'' of None \<Rightarrow> True | Some c \<Rightarrow> hashable c) \<and>
          (case map_of fs ''dependencies'' of None \<Rightarrow> True | Some (JArr ds) \<Rightarrow> list_all is_JStr ds | Some _ \<Rightarrow> False)
      | _ \<Rightarrow> False)"

text \<open>The alert of Scenario B of the specification.\<close>

definition scenario_b_alert :: alert where
  "scenario_b_alert = \<lparr>alert_id = ''a-2'', severity = ''Medium'', message = ''m'',
      host = ''h2'', timestamp = 0, metadata = JObj []\<rparr>"

fun is_dict :: "json \<Rightarrow> bool" where
  "is_dict (JObj kvs) = True"
| "is_dict v = False"

definition without_llm :: "env \<Rightarrow> env" where
  "without_llm E = E\<lparr>GEMINI_API_KEY := [], ANTHROPIC_API_KEY := []\<rparr>"

text \<open>
  The shape of an \<^verbatim>\<open>AnalysisResult\<close>, following the data model of the specification (the
  code has plain dicts): priority, root cause, summary and description are strings, assignee
  and issue type are strings when present.
\<close>

definition has_str :: "json \<Rightarrow> string \<Rightarrow> bool" where
  "has_str d k = (case dict_index d k of Inr (JStr s) \<Rightarrow> True | _ \<Rightarrow> False)"

definition opt_str :: "json \<Rightarrow> string \<Rightarrow> bool" where
  "opt_str d k = (case dict_index d k of Inr (JStr s) \<Rightarrow> True | Inl (KeyError x) \<Rightarrow> True | _ \<Rightarrow> False)"

definition valid_AnalysisResult :: "json \<Rightarrow> bool" where
  "valid_AnalysisResult r =
     (has_str r ''priority'' \<and> has_str r ''root_cause'' \<and> has_str r ''summary'' \<and>
      has_str r ''description'' \<and> opt_str r ''assigned_to'' \<and> opt_str r ''issue_type'')"

text \<open>
  The two rules of the batch scan on a raw message, the severity a matching message sets,
  the raw messages of the events of one host (by its dict key), and the severity of the last
  message that matches a rule, \<^verbatim>\<open>"Medium"\<close> when none does.
\<close>

definition critical_rule :: "string \<Rightarrow> bool" where
  "critical_rule s = list_ex (\<lambda>keyword. contains keyword (lower s)) critical_keywords"

definition high_rule :: "string \<Rightarrow> bool" where
  "high_rule s = list_ex (\<lambda>keyword. contains keyword (lower s)) high_keywords"

definition matches_rule :: "string \<Rightarrow> bool" where
  "matches_rule s = (critical_rule s \<or> high_rule s)"

definition rule_severity :: "string \<Rightarrow> string" where
  "rule_severity s = (if critical_rule s then ''Critical'' else ''High'')"

definition event_raw_for :: "json \<Rightarrow> json \<Rightarrow> string option" where
  "event_raw_for k ev =
     (case (dict_get ev ''host'' (JStr ''unknown''), dict_get ev ''_raw'' (JStr [])) of
        (Inr h, Inr (JStr s)) \<Rightarrow> if py_key h = k then Some s else None
      | _ \<Rightarrow> None)"

definition host_raws :: "json \<Rightarrow> json list \<Rightarrow> string list" where
  "host_raws k evs = List.map_filter (event_raw_for k) evs"

definition last_match_severity :: "string list \<Rightarrow> string" where
  "last_match_severity raws =
     (if filter matches_rule raws = [] then ''Medium''
      else rule_severity (last (filter matches_rule raws)))"

definition sev_of :: "hosts \<Rightarrow> json \<Rightarrow> string" where
  "sev_of hs k = (case map_of hs k of None \<Rightarrow> ''Medium'' | Some d \<Rightarrow> hd_severity d)"

definition host_event :: "string \<Rightarrow> string \<Rightarrow> json" where
  "host_event h raw = JObj [(''host'', JStr h), (''_raw'', JStr raw)]"

text \<open>A call of the search tool of the logs backend, and the time range a scan report carries.\<close>

fun is_search :: "event \<Rightarrow> bool" where
  "is_search (ToolCall server tool args) = (tool = ''search_recent'')"
| "is_search ev = False"

fun report_time_range :: "scan_report \<Rightarrow> string" where
  "report_time_range (ScanCompleted time_range n_events n_hosts n_ok n_failed alerts) = time_range"
| "report_time_range (ScanFailed err time_range) = time_range"

section \<open>Basic facts\<close>

lemma and_then_Inr [simp]: "and_then r f = Inr y \<longleftrightarrow> (\<exists>v. r = Inr v \<and> f v = Inr y)"
  by (cases r) (simp_all add: and_then_def)

lemma and_then_Inl: "and_then r f = Inl e \<longleftrightarrow> r = Inl e \<or> (\<exists>v. r = Inr v \<and> f v = Inl e)"
  by (cases r) (simp_all add: and_then_def)

lemma and_then_simps [simp]: "and_then (Inl e) f = Inl e" "and_then (Inr v) f = f v"
  by (simp_all add: and_then_def)

lemma wait_for_simps [simp]:
  "wait_for (Inr v, t) = (Inr v, t)"
  "wait_for (Inl e, t) = (Inl (if e = CancelledError then TimeoutError else e), t)"
  by (cases e; simp add: wait_for_def)+

lemma call_tool_known:
  "server \<in> set servers \<Longrightarrow>
   call_tool E server tool args t =
     (and_then (transport E t server tool args) extract_text_content, t @ [ToolCall server tool args])"
  by (simp add: call_tool_def and_then_def split: sum.splits)

lemma text_blocks_of_none: "list_all no_text_block cs \<Longrightarrow> text_blocks_of cs = Inr []"
  by (induction cs) (auto simp: no_text_block_def dict_get_def split: json.splits option.splits)

lemma extract_no_text:
  "list_all no_text_block cs \<Longrightarrow> map_of kvs ''content'' = Some (JArr cs) \<Longrightarrow>
   extract_text_content (RpcResult kvs) = Inr JNull"
  by (simp add: extract_text_content_def dict_get_def py_iter_def text_blocks_of_none)

lemma exc_simps [simp]: "exc (Inr v)" "exc (Inl e) \<longleftrightarrow> e \<noteq> CancelledError"
  by (simp_all add: exc_def)

lemma excD: "exc r \<Longrightarrow> r = Inl e \<Longrightarrow> is_Exception e"
  by (simp add: exc_def is_Exception_def)

lemma exc_and_then: "exc r \<Longrightarrow> (\<And>v. exc (f v)) \<Longrightarrow> exc (and_then r f)"
  by (cases r) simp_all

lemma exc_dict_get [simp]: "exc (dict_get d k v)"
  by (cases d) (simp_all add: dict_get_def)

lemma exc_dict_index [simp]: "exc (dict_index d k)"
  by (cases d) (simp_all add: dict_index_def split: option.splits)

lemma exc_py_len [simp]: "exc (py_len v)"
  by (cases v) (simp_all add: py_len_def)

lemma exc_py_slice [simp]: "exc (py_slice n v)"
  by (cases v) (simp_all add: py_slice_def)

lemma exc_py_iter [simp]: "exc (py_iter v)"
  by (cases v) (simp_all add: py_iter_def)

lemma exc_table_get [simp]: "exc (table_get m k d)"
  by (simp add: table_get_def)

lemma exc_parse [simp]: "exc (parse_tool_response E r)"
  by (cases r) (simp_all add: parse_tool_response_def split: sum.splits)

lemma exc_count_errors [simp]: "exc (count_errors xs)"
proof (induction xs)
  case Nil
  show ?case by simp
next
  case (Cons x xs)
  have "exc (dict_get x ''message'' (JStr []))" by simp
  with Cons show ?case
    by (auto split: sum.splits json.splits simp: exc_def)
qed

lemma exc_log_lines [simp]: "exc (log_lines E xs)"
proof (induction xs)
  case Nil
  show ?case by simp
next
  case (Cons x xs)
  show ?case
    unfolding log_lines.simps
    by (intro exc_and_then) (simp_all add: Cons)
qed

lemma exc_str_items [simp]: "exc (str_items xs)"
  by (induction xs rule: str_items.induct) (simp_all add: exc_and_then)

lemma exc_join_strs [simp]: "exc (join_strs sep v)"
  unfolding join_strs_def by (intro exc_and_then) simp_all

lemma exc_rule_based [simp]: "exc (rule_based_analysis E a logs cmdb)"
  unfolding rule_based_analysis_def by (intro exc_and_then) simp_all

lemma exc_str_field [simp]: "exc (str_field v)"
  by (cases v) (simp_all add: str_field_def)

lemma exc_opt_str_field [simp]: "exc (opt_str_field v)"
  by (cases v) (simp_all add: opt_str_field_def)

lemma exc_TicketResponse [simp]: "exc (TicketResponse a b c d e f g h)"
  unfolding TicketResponse_def by (intro exc_and_then) simp_all

lemma exc_jira_arguments [simp]: "exc (jira_arguments E an)"
  unfolding jira_arguments_def by (intro exc_and_then) simp_all

lemma exc_map_urgency [simp]: "exc (map_priority_to_urgency p)" "exc (map_priority_to_impact p)"
  by (simp_all add: map_priority_to_urgency_def map_priority_to_impact_def)

lemma exc_servicenow_arguments [simp]: "exc (servicenow_arguments a an)"
  unfolding servicenow_arguments_def by (intro exc_and_then) simp_all

lemma exc_wait_for [simp]: "exc (fst (wait_for r))"
proof (cases r)
  case (Pair x t)
  then show ?thesis by (cases x) auto
qed

lemma snd_wait_for [simp]: "snd (wait_for r) = snd r"
proof (cases r)
  case (Pair x t)
  then show ?thesis by (cases x) auto
qed

lemma exc_text_blocks_of [simp]: "exc (text_blocks_of cs)"
proof (induction cs)
  case Nil
  show ?case by simp
next
  case (Cons c cs)
  have "exc (dict_get c ''type'' JNull)" by simp
  with Cons show ?case by (auto split: sum.splits simp: exc_def)
qed

lemma exc_extract [simp]: "exc (extract_text_content resp)"
proof -
  have a: "\<And>d. exc (dict_get d ''content'' (JArr []))" by simp
  have b: "\<And>v. exc (py_iter v)" by simp
  have c: "\<And>cs. exc (text_blocks_of cs)" by simp
  have d: "\<And>x. exc (dict_get x ''text'' (JStr []))" by simp
  show ?thesis
    unfolding extract_text_content_def Let_def
    using a b c d by (auto split: sum.splits simp: exc_def)
qed

lemma wait_for_exc: "exc x \<Longrightarrow> wait_for (x, t) = (x, t)"
  by (cases x) auto

text \<open>A registered server: the call is recorded, and its outcome is never a cancellation.\<close>

lemma wait_call_tool:
  assumes "server \<in> set servers"
  obtains r where "wait_for (call_tool E server tool args t) = (r, t @ [ToolCall server tool args])"
    and "exc r"
    and "\<And>e. transport E t server tool args = Inl e \<Longrightarrow>
           r = Inl (if e = CancelledError then TimeoutError else e)"
    and "\<And>resp. transport E t server tool args = Inr resp \<Longrightarrow> r = extract_text_content resp"
proof -
  let ?c = "call_tool E server tool args t"
  have s: "snd (wait_for ?c) = t @ [ToolCall server tool args]"
    using assms by (simp add: call_tool_known)
  have e: "exc (fst (wait_for ?c))" by simp
  have a: "\<And>e. transport E t server tool args = Inl e \<Longrightarrow>
           fst (wait_for ?c) = Inl (if e = CancelledError then TimeoutError else e)"
    using assms by (simp add: call_tool_known)
  have b: "\<And>resp. transport E t server tool args = Inr resp \<Longrightarrow> fst (wait_for ?c) = extract_text_content resp"
    using assms by (simp add: call_tool_known wait_for_exc)
  show ?thesis
    using that[of "fst (wait_for ?c)"] s e a b by (metis prod.collapse)
qed

lemma servers_simps [simp]:
  "''splunk'' \<in> set servers" "''jira'' \<in> set servers" "''cmdb'' \<in> set servers"
  by (simp_all add: servers_def)

lemma retrieve_logs_try_cases:
  "(\<exists>e. is_Exception e \<and> retrieve_logs_try E a t =
        (Inl e, t @ [ToolCall ''splunk'' ''query_logs'' (query_logs_arguments E a)])) \<or>
   (\<exists>logs d. retrieve_logs_try E a t =
        (Inr logs, t @ [ToolCall ''splunk'' ''query_logs'' (query_logs_arguments E a),
                        LogActivity (alert_id a) ''Logs Retrieved'' d ''complete'']))"
proof -
  obtain r where w: "wait_for (call_tool E ''splunk'' ''query_logs'' (query_logs_arguments E a) t)
      = (r, t @ [ToolCall ''splunk'' ''query_logs'' (query_logs_arguments E a)])" and r: "exc r"
    by (rule wait_call_tool[of "''splunk''"]) simp_all
  have c: "\<And>x. exc (and_then (parse_tool_response E x) (\<lambda>logs_result_obj.
               and_then (dict_get logs_result_obj ''logs'' (JArr [])) (\<lambda>logs.
               and_then (py_len logs) (\<lambda>n.
               and_then (dict_get logs_result_obj ''results_count'' (JInt n)) (\<lambda>cnt.
               Inr (logs, cnt))))))"
    by (intro exc_and_then) simp_all
  show ?thesis
    unfolding retrieve_logs_try_def w using r c
    by (auto split: sum.splits prod.splits simp: exc_def is_Exception_def log_activity_def)
qed

lemma retrieve_logs_try_fail:
  assumes "transport E t ''splunk'' ''query_logs'' (query_logs_arguments E a) = Inl e"
  shows "retrieve_logs_try E a t =
     (Inl (if e = CancelledError then TimeoutError else e),
      t @ [ToolCall ''splunk'' ''query_logs'' (query_logs_arguments E a)])"
  unfolding retrieve_logs_try_def using assms by (simp add: call_tool_known)

lemma retrieve_logs_returns:
  "\<exists>logs x d s. retrieve_logs E a t =
      (Inr logs, t @ [ToolCall ''splunk'' ''query_logs'' (query_logs_arguments E a),
                      LogActivity (alert_id a) x d s]) \<and>
      (x = ''Logs Retrieved'' \<or> x = ''Logs Retrieval'')"
  using retrieve_logs_try_cases[of E a t]
  unfolding retrieve_logs_def by (auto simp: log_activity_def)

lemma retrieve_logs_fail:
  assumes "transport E t ''splunk'' ''query_logs'' (query_logs_arguments E a) = Inl e"
  shows "retrieve_logs E a t =
     (Inr (JArr []),
      t @ [ToolCall ''splunk'' ''query_logs'' (query_logs_arguments E a),
           LogActivity (alert_id a) ''Logs Retrieval''
             (''Failed: '' @ str_exn E (if e = CancelledError then TimeoutError else e)) ''error''])"
  unfolding retrieve_logs_def retrieve_logs_try_fail[OF assms]
  by (simp add: is_Exception_def log_activity_def)

lemma enrich_returns:
  "\<exists>cmdb x d s. enrich_with_cmdb E a logs t =
      (Inr cmdb, t @ [ToolCall ''cmdb'' ''get_asset_info'' (asset_info_arguments a),
                      LogActivity (alert_id a) x d s]) \<and>
      (x = ''Context Enriched'' \<or> x = ''CMDB Query'')"
proof -
  obtain r where w: "wait_for (call_tool E ''cmdb'' ''get_asset_info'' (asset_info_arguments a) t)
      = (r, t @ [ToolCall ''cmdb'' ''get_asset_info'' (asset_info_arguments a)])" and r: "exc r"
    by (rule wait_call_tool[of "''cmdb''"]) simp_all
  have p: "\<And>x. exc (parse_tool_response E x)" by simp
  have g: "\<And>x k d. exc (dict_get x k d)" by simp
  show ?thesis
    unfolding enrich_with_cmdb_def w enrich_except_def using r p g
    by (auto split: sum.splits prod.splits simp: exc_def is_Exception_def log_activity_def)
qed

lemma enrich_fail:
  assumes "transport E t ''cmdb'' ''get_asset_info'' (asset_info_arguments a) = Inl e"
  shows "enrich_with_cmdb E a logs t =
     (Inr (JObj []),
      t @ [ToolCall ''cmdb'' ''get_asset_info'' (asset_info_arguments a),
           LogActivity (alert_id a) ''CMDB Query''
             (''Failed: '' @ str_exn E (if e = CancelledError then TimeoutError else e)) ''error''])"
  unfolding enrich_with_cmdb_def enrich_except_def using assms
  by (simp add: call_tool_known is_Exception_def log_activity_def)

text \<open>The analysis step.\<close>

lemma llm_analysis_trace:
  "snd (llm_analysis E a logs cmdb t) = t \<or>
   (\<exists>p. snd (llm_analysis E a logs cmdb t) = t @ [LLMCall p])"
  unfolding llm_analysis_def by (auto split: sum.splits)

lemma exc_analysis_prompt [simp]: "exc (analysis_prompt E a logs cmdb)"
  unfolding analysis_prompt_def by (intro exc_and_then) simp_all

lemma exc_py_nth [simp]: "exc (py_nth xs i)"
  by (simp add: py_nth_def)

lemma exc_extract_json_text [simp]: "exc (extract_json_text s)"
  unfolding extract_json_text_def
  by (auto intro!: exc_and_then)

lemma exc_llm_analysis_try [simp]: "exc (llm_analysis_try E answer)"
proof -
  have a: "exc (case answer of Inl (ty, m) \<Rightarrow> Inl (OtherError ty m) | Inr text \<Rightarrow> Inr text)"
    by (auto split: sum.splits)
  have b: "\<And>x. exc (case json_loads E x of Inl je \<Rightarrow> Inl (JSONDecodeError je) | Inr analysis \<Rightarrow> Inr analysis)"
    by (auto split: sum.splits)
  show ?thesis
    unfolding llm_analysis_try_def using a b by (intro exc_and_then) simp_all
qed

lemma exc_llm_analysis [simp]: "exc (fst (llm_analysis E a logs cmdb t))"
proof -
  have p: "exc (analysis_prompt E a logs cmdb)" by simp
  have q: "\<And>x. exc (llm_analysis_try E x)" by simp
  have r: "exc (rule_based_analysis E a logs cmdb)" by simp
  show ?thesis
    unfolding llm_analysis_def using p q r
    by (auto split: sum.splits simp: exc_def is_Exception_def)
qed

lemma analyze_try_cases:
  "\<exists>pre. (pre = [] \<or> (\<exists>p. pre = [LLMCall p])) \<and>
     ((\<exists>e. is_Exception e \<and> analyze_incident_try E a logs cmdb t = (Inl e, t @ pre)) \<or>
      (\<exists>kvs d. analyze_incident_try E a logs cmdb t =
          (Inr (JObj kvs), t @ pre @ [LogActivity (alert_id a) ''Analysis Complete'' d ''complete''])))"
proof (cases "setup_llm E")
  case True
  obtain x t1 where l: "llm_analysis E a logs cmdb t = (x, t1)" by (cases "llm_analysis E a logs cmdb t")
  from exc_llm_analysis[of E a logs cmdb t] l have y: "exc x" by simp
  from llm_analysis_trace[of E a logs cmdb t] l
  obtain pre where pre: "t1 = t @ pre" "pre = [] \<or> (\<exists>p. pre = [LLMCall p])" by auto
  have g: "\<And>x k d. exc (dict_get x k d)" by simp
  show ?thesis
    apply (rule exI[of _ pre])
    unfolding analyze_incident_try_def wait_for_blocking_def using True l y pre g
    by (auto split: sum.splits json.splits simp: exc_def is_Exception_def log_activity_def dict_get_def)
next
  case False
  have r: "exc (rule_based_analysis E a logs cmdb)" by simp
  show ?thesis
    apply (rule exI[of _ "[]"])
    unfolding analyze_incident_try_def using False r
    by (auto split: sum.splits json.splits simp: exc_def is_Exception_def log_activity_def dict_get_def)
qed

lemma analyze_returns:
  "\<exists>kvs ext. analyze_incident E a logs cmdb t = (Inr (JObj kvs), t @ ext) \<and>
     list_all (\<lambda>ev. (\<exists>p. ev = LLMCall p) \<or> (\<exists>d. ev = LogActivity (alert_id a) ''Analysis Complete'' d ''complete'')) ext"
  using analyze_try_cases[of E a logs cmdb t]
  unfolding analyze_incident_def by (auto simp: fallback_analysis_def)

lemma ticket_from_result_cases:
  "\<exists>r ext. ticket_from_result E a an res t = (r, t @ ext) \<and> exc r \<and>
     (isl r \<or> list_ex ticket_step ext) \<and> \<not> list_ex later_step ext"
proof -
  have p: "\<And>x. exc (and_then (parse_tool_response E x) (\<lambda>ticket_data.
           and_then (dict_get ticket_data ''ticket_id'' (JStr (JIRA_PROJECT_KEY E @ ''-XXXX''))) (\<lambda>tid.
           and_then (dict_get ticket_data ''url'' (JStr [])) (\<lambda>ticket_url.
           Inr (tid, ticket_url)))))"
    by (intro exc_and_then) simp_all
  have q: "exc (and_then (dict_index an ''priority'') (\<lambda>p.
                   and_then (dict_index an ''summary'') (\<lambda>s.
                   and_then (dict_index an ''description'') (\<lambda>d.
                   and_then (dict_get an ''assigned_to'' (JStr ''DevOps'')) (\<lambda>asg2.
                   Inr (p, s, d, asg2))))))"
    by (intro exc_and_then) simp_all
  have g: "exc (dict_get an ''assigned_to'' (JStr ''DevOps''))" by simp
  have v: "\<And>a b c d e f g h. exc (TicketResponse a b c d e f g h)" by simp
  show ?thesis
    unfolding ticket_from_result_def Let_def using p q g v
    by (auto split: sum.splits prod.splits simp: exc_def log_activity_def)
qed

lemma create_jira_ticket_try_cases:
  "\<exists>r ext. create_jira_ticket_try E a an t = (r, t @ ext) \<and> exc r \<and>
     (isl r \<or> list_ex ticket_step ext) \<and> \<not> list_ex later_step ext"
proof (cases "jira_arguments E an")
  case (Inl e)
  have "exc (jira_arguments E an)" by simp
  with Inl show ?thesis
    unfolding create_jira_ticket_try_def by (auto simp: exc_def)
next
  case (Inr args)
  obtain r where w: "wait_for (call_tool E ''jira'' ''create_ticket'' args t)
      = (r, t @ [ToolCall ''jira'' ''create_ticket'' args])" and r: "exc r"
    by (rule wait_call_tool[of "''jira''"]) simp_all
  show ?thesis
  proof (cases r)
    case (Inl e)
    with Inr w r show ?thesis
      unfolding create_jira_ticket_try_def by (auto simp: exc_def)
  next
    case (Inr res)
    from ticket_from_result_cases[of E a an res "t @ [ToolCall ''jira'' ''create_ticket'' args]"]
    obtain r2 ext where "ticket_from_result E a an res (t @ [ToolCall ''jira'' ''create_ticket'' args]) = (r2, (t @ [ToolCall ''jira'' ''create_ticket'' args]) @ ext)"
      "exc r2" "isl r2 \<or> list_ex ticket_step ext" "\<not> list_ex later_step ext" by blast
    with Inr w \<open>jira_arguments E an = Inr args\<close> show ?thesis
      unfolding create_jira_ticket_try_def
      by (intro exI[of _ r2] exI[of _ "ToolCall ''jira'' ''create_ticket'' args # ext"]) simp
  qed
qed

lemma create_jira_ticket_cases:
  "\<exists>r ext. create_jira_ticket E a an t = (r, t @ ext) \<and>
     (\<forall>e. r = Inl e \<longrightarrow> (\<exists>d. e = HTTPException 500 d)) \<and>
     list_ex ticket_step ext \<and> \<not> list_ex later_step ext"
proof -
  from create_jira_ticket_try_cases[of E a an t]
  obtain r ext where c: "create_jira_ticket_try E a an t = (r, t @ ext)" "exc r"
     "isl r \<or> list_ex ticket_step ext" "\<not> list_ex later_step ext" by blast
  show ?thesis
  proof (cases r)
    case (Inl e)
    with c show ?thesis
      unfolding create_jira_ticket_def
      by (intro exI[of _ "Inl (HTTPException 500 (''Failed to create ticket: '' @ str_exn E e))"]
                exI[of _ "ext @ [LogActivity (alert_id a) ''Ticket Creation'' (''Failed: '' @ str_exn E e) ''error'']"])
         (simp add: is_Exception_def log_activity_def)
  next
    case (Inr ticket)
    with c show ?thesis
      unfolding create_jira_ticket_def by (intro exI[of _ r] exI[of _ ext]) simp
  qed
qed

lemma create_jira_ticket_fail:
  assumes "jira_arguments E an = Inr args"
      and "transport E t ''jira'' ''create_ticket'' args = Inl e"
  shows "create_jira_ticket E a an t =
     (Inl (HTTPException 500 (''Failed to create ticket: ''
             @ str_exn E (if e = CancelledError then TimeoutError else e))),
      t @ [ToolCall ''jira'' ''create_ticket'' args,
           LogActivity (alert_id a) ''Ticket Creation''
             (''Failed: '' @ str_exn E (if e = CancelledError then TimeoutError else e)) ''error''])"
  unfolding create_jira_ticket_def create_jira_ticket_try_def using assms
  by (simp add: call_tool_known is_Exception_def log_activity_def)

lemma process_alert_unfold:
  assumes "retrieve_logs E a (alert_received a t) = (Inr logs, t2)"
      and "enrich_with_cmdb E a logs t2 = (Inr cmdb, t3)"
      and "analyze_incident E a logs cmdb t3 = (Inr an, t4)"
  shows "process_alert E a t =
     (case create_jira_ticket E a an t4 of
        (Inl e, t5) \<Rightarrow> (Inl e, t5)
      | (Inr ticket, t5) \<Rightarrow>
     (case create_servicenow_incident E a an t5 of
        (Inl e, t6) \<Rightarrow> (Inl e, t6)
      | (Inr u, t6) \<Rightarrow>
     (case save_ticket_record E a an ticket (clock E t) t6 of
        (Inl e, t7) \<Rightarrow> (Inl e, t7)
      | (Inr u2, t7) \<Rightarrow> (Inr ticket, t7))))"
  unfolding process_alert_def Let_def by (simp add: assms)

lemma alert_received_ext: "alert_received a t = t @ [ClockRead, LogActivity (alert_id a) ''Alert Received'' (severity a @ '' alert on '' @ host a @ '': '' @ message a) ''processing'']"
  by (simp add: alert_received_def log_activity_def)

lemma steps_before_ticket:
  assumes "retrieve_logs E a (alert_received a t) = (Inr logs, t2)"
      and "enrich_with_cmdb E a logs t2 = (Inr cmdb, t3)"
      and "analyze_incident E a logs cmdb t3 = (Inr an, t4)"
  shows "\<exists>ext. t4 = t @ ext \<and> \<not> list_ex later_step ext \<and> \<not> list_ex ticket_step ext"
proof -
  from retrieve_logs_returns[of E a "alert_received a t"] assms(1)
  obtain x d s where t2: "t2 = alert_received a t @ [ToolCall ''splunk'' ''query_logs'' (query_logs_arguments E a),
                      LogActivity (alert_id a) x d s]" "x = ''Logs Retrieved'' \<or> x = ''Logs Retrieval''"
    by auto
  from enrich_returns[of E a logs t2] assms(2)
  obtain x' d' s' where t3: "t3 = t2 @ [ToolCall ''cmdb'' ''get_asset_info'' (asset_info_arguments a),
                      LogActivity (alert_id a) x' d' s']" "x' = ''Context Enriched'' \<or> x' = ''CMDB Query''"
    by auto
  from analyze_returns[of E a logs cmdb t3] assms(3)
  obtain ext where t4: "t4 = t3 @ ext" "list_all (\<lambda>ev. (\<exists>p. ev = LLMCall p) \<or> (\<exists>d. ev = LogActivity (alert_id a) ''Analysis Complete'' d ''complete'')) ext"
    by auto
  from t4(2) have e: "\<not> list_ex later_step ext \<and> \<not> list_ex ticket_step ext"
    by (induction ext) auto
  show ?thesis
    using t2 t3 t4(1) e
    by (intro exI[of _ "drop (length t) t4"]) (auto simp: alert_received_ext)
qed

lemmas ex_defs = example_env_def backends_down_def example_alert_def example_loads_def example_fmt_def
  example_exn_text_def text_reply_def

lemmas step_defs = alert_received_def log_activity_def retrieve_logs_def retrieve_logs_try_def
  query_logs_arguments_def call_tool_def servers_def wait_for_def wait_for_blocking_def
  is_Exception_def str_exn_def
  enrich_with_cmdb_def enrich_except_def asset_info_arguments_def
  analyze_incident_def analyze_incident_try_def setup_llm_def

lemmas rb_defs = rule_based_analysis_def dict_get_def table_get_def priority_map_def py_iter_def
  py_slice_def join_strs_def py_str_def

lemmas prompt_defs = analysis_prompt_def py_len_def py_slice_def dict_get_def py_str_def

lemmas ticket_defs = create_jira_ticket_def create_jira_ticket_try_def jira_arguments_def
  ticket_from_result_def parse_tool_response_def TicketResponse_def str_field_def opt_str_field_def
  dict_index_def extract_text_content_def only_jira_def

lemmas later_defs = create_servicenow_incident_def create_servicenow_incident_try_def
  servicenow_arguments_def map_priority_to_urgency_def map_priority_to_impact_def urgency_map_def
  save_ticket_record_def

lemma list_ex_drop: "list_ex P (drop n xs) \<Longrightarrow> list_ex P xs"
  by (auto simp: list_ex_iff dest: in_set_dropD)

lemma list_ex_prefix: "prefix xs ys \<Longrightarrow> list_ex P xs \<Longrightarrow> list_ex P ys"
  by (auto simp: list_ex_iff prefix_def)

section \<open>The tool client returns nothing when there is no text block\<close>

text \<open>
  Claim C4, as the code has it. For every \<^verbatim>\<open>callTool\<close> response whose content list holds
  only objects whose type is not \<^verbatim>\<open>"text"\<close>, \<^verbatim>\<open>call_tool\<close> raises nothing: it returns
  \<^verbatim>\<open>None\<close>. The error comes one level up, in the agent: \<^verbatim>\<open>_parse_tool_response\<close> turns that
  \<^verbatim>\<open>None\<close> into \<^verbatim>\<open>RuntimeError("Tool returned no content")\<close>.
\<close>

theorem facade_returns_none:
  "list_all no_text_block cs \<Longrightarrow> map_of kvs ''content'' = Some (JArr cs) \<Longrightarrow>
   server \<in> set servers \<Longrightarrow> transport E t server tool args = Inr (RpcResult kvs) \<Longrightarrow>
   call_tool E server tool args t = (Inr JNull, t @ [ToolCall server tool args]) \<and>
   parse_tool_response E JNull = Inl (RuntimeError ''Tool returned no content'')"
  by (simp add: call_tool_known extract_no_text parse_tool_response_def)

theorem facade_returns_none_witness:
  "call_tool (example_env image_only (Inr []) []) ''splunk'' ''query_logs'' (JObj []) [] =
     (Inr JNull, [ToolCall ''splunk'' ''query_logs'' (JObj [])]) \<and>
   parse_tool_response (example_env image_only (Inr []) []) JNull =
     Inl (RuntimeError ''Tool returned no content'')"
  using facade_returns_none[of "[JObj [(''type'', JStr ''image'')]]"
          "[(''content'', JArr [JObj [(''type'', JStr ''image'')]])]" "''splunk''"
          "example_env image_only (Inr []) []" "[]" "''query_logs''" "JObj []"]
  by (simp add: no_text_block_def example_env_def image_only_def)

text \<open>
  Scenario D of the specification: the content is \<^verbatim>\<open>[{type:"image"}]\<close>. The facade returns
  \<^verbatim>\<open>None\<close>; no \<^verbatim>\<open>EmptyResultError\<close> exists in the code.
\<close>

theorem facade_no_text_counterexample:
  "fst (call_tool (example_env image_only (Inr []) []) ''jira'' ''create_ticket'' (JObj []) []) = Inr JNull"
  by (simp add: call_tool_def servers_def example_env_def image_only_def extract_text_content_def
        dict_get_def py_iter_def)

section \<open>A failed ticket creation is fatal\<close>

text \<open>
  Claim C1. Let \<open>logs\<close>, \<open>cmdb\<close> and \<open>an\<close> be what log retrieval, enrichment and analysis
  produced for the alert, and \<open>t4\<close> the history at that point. If the call of the ticketing
  backend fails there (an error, or the cancellation of a timeout), \<^verbatim>\<open>process_alert\<close> raises
  \<^verbatim>\<open>HTTPException(500)\<close> to its caller, the last events of the run are the call and the
  error entry, and the run has made no \<^verbatim>\<open>create_incident\<close> call and handed no ticket record
  to the session.
\<close>

theorem ticket_failure_is_fatal:
  assumes "retrieve_logs E a (alert_received a t) = (Inr logs, t2)"
      and "enrich_with_cmdb E a logs t2 = (Inr cmdb, t3)"
      and "analyze_incident E a logs cmdb t3 = (Inr an, t4)"
      and "jira_arguments E an = Inr args"
      and "transport E t4 ''jira'' ''create_ticket'' args = Inl e"
  shows "process_alert E a t =
     (Inl (HTTPException 500 (''Failed to create ticket: ''
             @ str_exn E (if e = CancelledError then TimeoutError else e))),
      t4 @ [ToolCall ''jira'' ''create_ticket'' args,
           LogActivity (alert_id a) ''Ticket Creation''
             (''Failed: '' @ str_exn E (if e = CancelledError then TimeoutError else e)) ''error''])
     \<and> \<not> list_ex later_step (drop (length t) (snd (process_alert E a t)))"
proof -
  have p: "process_alert E a t =
     (Inl (HTTPException 500 (''Failed to create ticket: ''
             @ str_exn E (if e = CancelledError then TimeoutError else e))),
      t4 @ [ToolCall ''jira'' ''create_ticket'' args,
           LogActivity (alert_id a) ''Ticket Creation''
             (''Failed: '' @ str_exn E (if e = CancelledError then TimeoutError else e)) ''error''])"
    unfolding process_alert_unfold[OF assms(1-3)] create_jira_ticket_fail[OF assms(4,5)] by simp
  from steps_before_ticket[OF assms(1-3)] obtain ext where
    "t4 = t @ ext" "\<not> list_ex later_step ext" by blast
  with p show ?thesis by simp
qed

theorem ticket_failure_is_fatal_witness:
  "fst (process_alert (example_env backends_down (Inr []) []) example_alert []) =
     Inl (HTTPException 500 ''Failed to create ticket: backend unreachable'') \<and>
   \<not> list_ex later_step (snd (process_alert (example_env backends_down (Inr []) []) example_alert []))"
proof -
  let ?E = "example_env backends_down (Inr []) []"
  let ?t2 = "alert_received example_alert [] @
      [ToolCall ''splunk'' ''query_logs'' (query_logs_arguments ?E example_alert),
       LogActivity ''a-1'' ''Logs Retrieval'' ''Failed: backend unreachable'' ''error'']"
  let ?t3 = "?t2 @ [ToolCall ''cmdb'' ''get_asset_info'' (asset_info_arguments example_alert),
       LogActivity ''a-1'' ''CMDB Query'' ''Failed: backend unreachable'' ''error'']"
  let ?r = "analyze_incident ?E example_alert (JArr []) (JObj []) ?t3"
  have h1: "retrieve_logs ?E example_alert (alert_received example_alert []) = (Inr (JArr []), ?t2)"
    by (simp add: ex_defs step_defs)
  have h2: "enrich_with_cmdb ?E example_alert (JArr []) ?t2 = (Inr (JObj []), ?t3)"
    by (simp add: ex_defs step_defs)
  have h3: "?r = (Inr (projr (fst ?r)), snd ?r)"
    by (simp add: ex_defs step_defs rb_defs)
  have h4: "jira_arguments ?E (projr (fst ?r)) = Inr (projr (jira_arguments ?E (projr (fst ?r))))"
    by (simp add: ex_defs step_defs rb_defs jira_arguments_def dict_index_def)
  have h5: "transport ?E (snd ?r) ''jira'' ''create_ticket'' (projr (jira_arguments ?E (projr (fst ?r))))
      = Inl (OtherError ''ConnectionError'' ''backend unreachable'')"
    by (simp add: example_env_def backends_down_def)
  note th = ticket_failure_is_fatal[OF h1 h2 h3 h4 h5]
  from th[THEN conjunct1] have a: "fst (process_alert ?E example_alert []) =
     Inl (HTTPException 500 ''Failed to create ticket: backend unreachable'')"
    by (simp add: str_exn_def)
  from th[THEN conjunct2] have b: "\<not> list_ex later_step (snd (process_alert ?E example_alert []))"
    by simp
  from a b show ?thesis by simp
qed

section \<open>Rule-based priority\<close>

lemma rule_based_Inr:
  assumes "rule_based_analysis E a logs cmdb = Inr r"
  shows "\<exists>c d. dict_get cmdb ''criticality'' (JStr ''Medium'') = Inr c \<and>
     r = JObj [(''priority'', JStr (case map_of priority_map (severity a, c) of Some p \<Rightarrow> p | None \<Rightarrow> ''Medium'')),
               (''root_cause'', JStr (''Alert triggered: '' @ message a)),
               (''summary'', JStr (severity a @ '' Alert: '' @ take 50 (message a) @ '' on '' @ host a)),
               (''description'', JStr d),
               (''issue_type'', JStr ''Task'')]"
  using assms unfolding rule_based_analysis_def
  by (auto simp: table_get_def split: if_splits)

lemma count_errors_ok: "list_all log_entry_ok xs \<Longrightarrow> \<exists>n. count_errors xs = Inr n"
  by (induction xs) (auto simp: log_entry_ok_def dict_get_def split: json.splits option.splits)

lemma log_lines_ok: "list_all log_entry_ok xs \<Longrightarrow> \<exists>ls. log_lines E xs = Inr ls"
  by (induction xs) (auto simp: log_entry_ok_def dict_get_def py_slice_def split: json.splits option.splits)

lemma str_items_ok: "list_all is_JStr ds \<Longrightarrow> \<exists>ss. str_items ds = Inr ss"
proof (induction ds)
  case Nil
  show ?case by simp
next
  case (Cons d ds)
  then show ?case by (cases d) auto
qed

lemma list_all_take: "list_all P xs \<Longrightarrow> list_all P (take n xs)"
  by (auto simp: list_all_iff dest: in_set_takeD)

lemma rule_based_total:
  assumes "inputs_ok logs cmdb"
  shows "\<exists>r. rule_based_analysis E a logs cmdb = Inr r"
proof -
  from assms obtain xs fs where l: "logs = JArr xs" and c: "cmdb = JObj fs"
    and xs: "list_all log_entry_ok xs"
    and h: "(case map_of fs ''criticality'' of None \<Rightarrow> True | Some c \<Rightarrow> hashable c)"
    and d: "(case map_of fs ''dependencies'' of None \<Rightarrow> True | Some (JArr ds) \<Rightarrow> list_all is_JStr ds | Some _ \<Rightarrow> False)"
    by (auto simp: inputs_ok_def split: json.splits)
  from count_errors_ok[OF xs] obtain n where n: "count_errors xs = Inr n" by blast
  from log_lines_ok[OF list_all_take[OF xs], of E 5] obtain ls where ls: "log_lines E (take 5 xs) = Inr ls" by blast
  have "\<exists>s. join_strs '', '' (case map_of fs ''dependencies'' of None \<Rightarrow> JArr [] | Some v \<Rightarrow> v) = Inr s"
    using d str_items_ok by (auto simp: join_strs_def py_iter_def split: option.splits json.splits)
  then obtain s where j: "join_strs '', '' (case map_of fs ''dependencies'' of None \<Rightarrow> JArr [] | Some v \<Rightarrow> v) = Inr s"
    by blast
  have "\<exists>p. table_get priority_map (severity a, case map_of fs ''criticality'' of None \<Rightarrow> JStr ''Medium'' | Some v \<Rightarrow> v) ''Medium'' = Inr p"
    using h by (auto simp: table_get_def split: option.splits)
  then obtain p where t: "table_get priority_map (severity a, case map_of fs ''criticality'' of None \<Rightarrow> JStr ''Medium'' | Some v \<Rightarrow> v) ''Medium'' = Inr p"
    by blast
  show ?thesis
    unfolding rule_based_analysis_def l c using n ls j t
    by (simp add: dict_get_def py_iter_def py_slice_def)
qed

text \<open>
  Claim C2. Whatever the rule-based analysis returns has, as its priority, the entry of the
  fixed table for the pair (alert severity, asset criticality), and \<^verbatim>\<open>"Medium"\<close> when the
  table has no such pair; the criticality itself defaults to \<^verbatim>\<open>"Medium"\<close>. On inputs of the
  expected shape the analysis does return. The witness runs Scenario A (Critical, High gives
  Critical) and Scenario B (Medium and a criticality outside the table give Medium).
\<close>

theorem rule_based_priority:
  "(\<forall>r. rule_based_analysis E a logs cmdb = Inr r \<longrightarrow>
      (\<exists>c. dict_get cmdb ''criticality'' (JStr ''Medium'') = Inr c \<and>
           dict_index r ''priority'' =
             Inr (JStr (case map_of priority_map (severity a, c) of Some p \<Rightarrow> p | None \<Rightarrow> ''Medium'')))) \<and>
   (inputs_ok logs cmdb \<longrightarrow> (\<exists>r. rule_based_analysis E a logs cmdb = Inr r))"
proof (intro conjI allI impI)
  fix r assume "rule_based_analysis E a logs cmdb = Inr r"
  from rule_based_Inr[OF this] show "\<exists>c. dict_get cmdb ''criticality'' (JStr ''Medium'') = Inr c \<and>
           dict_index r ''priority'' =
             Inr (JStr (case map_of priority_map (severity a, c) of Some p \<Rightarrow> p | None \<Rightarrow> ''Medium''))"
    by (auto simp: dict_index_def)
next
  assume "inputs_ok logs cmdb"
  then show "\<exists>r. rule_based_analysis E a logs cmdb = Inr r" by (rule rule_based_total)
qed

theorem rule_based_priority_witness:
  "(\<exists>r. rule_based_analysis (example_env backends_down (Inr []) []) example_alert (JArr [])
          (JObj [(''criticality'', JStr ''High'')]) = Inr r \<and>
        dict_index r ''priority'' = Inr (JStr ''Critical'')) \<and>
   (\<exists>r. rule_based_analysis (example_env backends_down (Inr []) []) scenario_b_alert (JArr [])
          (JObj [(''criticality'', JStr ''Low-equivalent-default'')]) = Inr r \<and>
        dict_index r ''priority'' = Inr (JStr ''Medium''))"
proof -
  let ?E = "example_env backends_down (Inr []) []"
  have a: "inputs_ok (JArr []) (JObj [(''criticality'', JStr ''High'')])"
    by (simp add: inputs_ok_def)
  have b: "inputs_ok (JArr []) (JObj [(''criticality'', JStr ''Low-equivalent-default'')])"
    by (simp add: inputs_ok_def)
  from rule_based_priority[of ?E example_alert "JArr []" "JObj [(''criticality'', JStr ''High'')]"] a
  have 1: "\<exists>r. rule_based_analysis ?E example_alert (JArr [])
          (JObj [(''criticality'', JStr ''High'')]) = Inr r \<and>
        dict_index r ''priority'' = Inr (JStr ''Critical'')"
    by (auto simp: dict_get_def priority_map_def example_alert_def)
  from rule_based_priority[of ?E scenario_b_alert "JArr []" "JObj [(''criticality'', JStr ''Low-equivalent-default'')]"] b
  have 2: "\<exists>r. rule_based_analysis ?E scenario_b_alert (JArr [])
          (JObj [(''criticality'', JStr ''Low-equivalent-default'')]) = Inr r \<and>
        dict_index r ''priority'' = Inr (JStr ''Medium'')"
    by (auto simp: dict_get_def priority_map_def scenario_b_alert_def)
  from 1 2 show ?thesis by blast
qed

section \<open>The analysis step absorbs every failure\<close>

lemma rule_based_is_dict: "rule_based_analysis E a logs cmdb = Inr r \<Longrightarrow> is_dict r"
  by (drule rule_based_Inr) auto

lemma analyze_rule_only:
  assumes "\<not> setup_llm E"
  shows "fst (analyze_incident E a logs cmdb t) =
     Inr (case rule_based_analysis E a logs cmdb of Inr r \<Rightarrow> r | Inl e \<Rightarrow> fallback_analysis a)"
proof (cases "rule_based_analysis E a logs cmdb")
  case (Inl e)
  have "exc (rule_based_analysis E a logs cmdb)" by simp
  with Inl have "is_Exception e" by (simp add: is_Exception_def)
  with Inl assms show ?thesis
    unfolding analyze_incident_def analyze_incident_try_def by simp
next
  case (Inr r)
  from rule_based_is_dict[OF Inr] obtain kvs where "r = JObj kvs" by (cases r) auto
  with Inr assms show ?thesis
    unfolding analyze_incident_def analyze_incident_try_def by (simp add: dict_get_def)
qed

lemma llm_analysis_falls_back:
  assumes "analysis_prompt E a logs cmdb = Inr prompt"
      and "(\<exists>er. llm E t prompt = Inl er) \<or>
           (\<exists>text jtext je. llm E t prompt = Inr text \<and>
              extract_json_text (if LLM_PROVIDER E = ''gemini'' then strip text else text) = Inr jtext \<and>
              json_loads E jtext = Inl je)"
  shows "llm_analysis E a logs cmdb t = (rule_based_analysis E a logs cmdb, t @ [LLMCall prompt])"
  using assms unfolding llm_analysis_def llm_analysis_try_def
  by (auto simp: is_Exception_def)

lemma analyze_llm_failed:
  assumes "setup_llm E"
      and "llm_analysis E a logs cmdb t = (rule_based_analysis E a logs cmdb, t1)"
  shows "fst (analyze_incident E a logs cmdb t) =
     Inr (case rule_based_analysis E a logs cmdb of Inr r \<Rightarrow> r | Inl e \<Rightarrow> fallback_analysis a)"
proof (cases "rule_based_analysis E a logs cmdb")
  case (Inl e)
  have "exc (rule_based_analysis E a logs cmdb)" by simp
  with Inl have "is_Exception e" by (simp add: is_Exception_def)
  with Inl assms show ?thesis
    unfolding analyze_incident_def analyze_incident_try_def wait_for_blocking_def
    by (simp add: is_Exception_def)
next
  case (Inr r)
  from rule_based_is_dict[OF Inr] obtain kvs where "r = JObj kvs" by (cases r) auto
  with Inr assms show ?thesis
    unfolding analyze_incident_def analyze_incident_try_def wait_for_blocking_def
    by (simp add: dict_get_def)
qed

lemma py_str_without_llm: "py_str (without_llm E) v = py_str E v"
  by (cases v) (simp_all add: without_llm_def py_str_def)

lemma log_lines_without_llm: "log_lines (without_llm E) xs = log_lines E xs"
  by (induction xs) (simp_all add: py_str_without_llm)

lemma fields_without_llm:
  "fmt (without_llm E) = fmt E" "fmt_time (without_llm E) = fmt_time E"
  by (simp_all add: without_llm_def)

lemma rule_based_without_llm: "rule_based_analysis (without_llm E) a logs cmdb = rule_based_analysis E a logs cmdb"
  unfolding rule_based_analysis_def log_lines_without_llm py_str_without_llm fields_without_llm ..

lemma setup_without_llm: "\<not> setup_llm (without_llm E)"
  by (simp add: setup_llm_def without_llm_def)

lemma rule_based_valid: "rule_based_analysis E a logs cmdb = Inr r \<Longrightarrow> valid_AnalysisResult r"
  by (drule rule_based_Inr) (auto simp: valid_AnalysisResult_def has_str_def opt_str_def dict_index_def)

lemma fallback_not_valid: "\<not> valid_AnalysisResult (fallback_analysis a)"
  by (simp add: valid_AnalysisResult_def has_str_def fallback_analysis_def dict_index_def)

text \<open>
  Claim C6, as the code has it. Suppose the prompt was built and the provider raised, or
  answered with a text that does not parse. Then \<^verbatim>\<open>_llm_analysis\<close> ends exactly as
  \<^verbatim>\<open>_rule_based_analysis\<close> does on the same inputs, with its result or with its exception,
  and the analysis step gives the same analysis as with no LLM configured. When the
  rule-based strategy produces a result, that result is what the step returns, and it has
  the shape of an \<^verbatim>\<open>AnalysisResult\<close>. When the rule-based strategy itself raises, the step
  returns the minimal fallback analysis, which has no root cause and so is not a full
  \<^verbatim>\<open>AnalysisResult\<close>.
\<close>

theorem llm_failure_equals_rule_based:
  assumes "analysis_prompt E a logs cmdb = Inr prompt"
      and "(\<exists>er. llm E t prompt = Inl er) \<or>
           (\<exists>text jtext je. llm E t prompt = Inr text \<and>
              extract_json_text (if LLM_PROVIDER E = ''gemini'' then strip text else text) = Inr jtext \<and>
              json_loads E jtext = Inl je)"
      and "setup_llm E"
  shows "fst (llm_analysis E a logs cmdb t) = rule_based_analysis E a logs cmdb \<and>
         fst (analyze_incident E a logs cmdb t) = fst (analyze_incident (without_llm E) a logs cmdb t) \<and>
         (\<forall>r. rule_based_analysis E a logs cmdb = Inr r \<longrightarrow>
              fst (analyze_incident E a logs cmdb t) = Inr r \<and> valid_AnalysisResult r) \<and>
         (\<forall>e. rule_based_analysis E a logs cmdb = Inl e \<longrightarrow>
              fst (analyze_incident E a logs cmdb t) = Inr (fallback_analysis a) \<and>
              \<not> valid_AnalysisResult (fallback_analysis a))"
proof -
  note f = llm_analysis_falls_back[OF assms(1,2)]
  have 1: "fst (llm_analysis E a logs cmdb t) = rule_based_analysis E a logs cmdb"
    by (simp add: f)
  have 2: "fst (analyze_incident E a logs cmdb t) =
     Inr (case rule_based_analysis E a logs cmdb of Inr r \<Rightarrow> r | Inl e \<Rightarrow> fallback_analysis a)"
    by (rule analyze_llm_failed[OF assms(3) f])
  have 3: "fst (analyze_incident (without_llm E) a logs cmdb t) =
     Inr (case rule_based_analysis E a logs cmdb of Inr r \<Rightarrow> r | Inl e \<Rightarrow> fallback_analysis a)"
    using analyze_rule_only[OF setup_without_llm, of E a logs cmdb t]
    by (simp add: rule_based_without_llm)
  show ?thesis
    using 1 2 3 rule_based_valid fallback_not_valid by auto
qed

theorem llm_failure_equals_rule_based_witness:
  "fst (llm_analysis (example_env backends_down (Inr ''not json'') ''key'') example_alert (JArr []) (JObj []) []) =
     rule_based_analysis (example_env backends_down (Inr ''not json'') ''key'') example_alert (JArr []) (JObj []) \<and>
   fst (analyze_incident (example_env backends_down (Inr ''not json'') ''key'') example_alert (JArr []) (JObj []) []) =
     fst (analyze_incident (without_llm (example_env backends_down (Inr ''not json'') ''key'')) example_alert (JArr []) (JObj []) []) \<and>
   valid_AnalysisResult (projr (fst (analyze_incident (example_env backends_down (Inr ''not json'') ''key'')
      example_alert (JArr []) (JObj []) [])))"
proof -
  let ?E = "example_env backends_down (Inr ''not json'') ''key''"
  let ?p = "projr (analysis_prompt ?E example_alert (JArr []) (JObj []))"
  have s: "setup_llm ?E" by (simp add: setup_llm_def example_env_def)
  have p: "analysis_prompt ?E example_alert (JArr []) (JObj []) = Inr ?p"
    by (simp add: prompt_defs)
  have g: "LLM_PROVIDER ?E = ''gemini''" "llm ?E [] ?p = Inr ''not json''" "json_loads ?E = example_loads"
    by (simp_all add: example_env_def)
  have st: "strip ''not json'' = ''not json''"
    by (simp add: strip_def is_space_def)
  have x: "extract_json_text ''not json'' = Inr ''not json''"
    by (simp add: extract_json_text_def)
  have j: "example_loads ''not json'' = Inl ''Expecting value: line 1 column 1 (char 0)''"
    by (simp add: example_loads_def)
  have f: "(\<exists>er. llm ?E [] ?p = Inl er) \<or>
           (\<exists>text jtext je. llm ?E [] ?p = Inr text \<and>
              extract_json_text (if LLM_PROVIDER ?E = ''gemini'' then strip text else text) = Inr jtext \<and>
              json_loads ?E jtext = Inl je)"
    using g st x j by simp
  note th = llm_failure_equals_rule_based[OF p f s]
  have "inputs_ok (JArr []) (JObj [])" by (simp add: inputs_ok_def)
  from rule_based_total[OF this, of ?E example_alert] obtain r where
    r: "rule_based_analysis ?E example_alert (JArr []) (JObj []) = Inr r" by blast
  from th r have a: "fst (analyze_incident ?E example_alert (JArr []) (JObj []) []) = Inr r"
    and v: "valid_AnalysisResult r"
    by blast+
  from a have pr: "projr (fst (analyze_incident ?E example_alert (JArr []) (JObj []) [])) = r"
    by simp
  from th have 1: "fst (llm_analysis ?E example_alert (JArr []) (JObj []) []) =
      rule_based_analysis ?E example_alert (JArr []) (JObj [])"
    and 2: "fst (analyze_incident ?E example_alert (JArr []) (JObj []) []) =
      fst (analyze_incident (without_llm ?E) example_alert (JArr []) (JObj []) [])"
    by blast+
  show ?thesis
    using 1 2 v unfolding pr by (intro conjI)
qed

text \<open>
  The enrichment data \<^verbatim>\<open>{"criticality": "High", "dependencies": null}\<close> and a provider that
  answers \<^verbatim>\<open>not json\<close>: the rule-based strategy raises \<^verbatim>\<open>TypeError\<close> at the \<^verbatim>\<open>join\<close> of
  the dependencies, and the step returns the minimal fallback, which is not a valid
  \<^verbatim>\<open>AnalysisResult\<close> and equals no result of the rule-based strategy.
\<close>

theorem llm_fallback_counterexample:
  "rule_based_analysis (example_env backends_down (Inr ''not json'') ''key'') example_alert (JArr [])
      (JObj [(''criticality'', JStr ''High''), (''dependencies'', JNull)]) = Inl TypeError \<and>
   fst (analyze_incident (example_env backends_down (Inr ''not json'') ''key'') example_alert (JArr [])
      (JObj [(''criticality'', JStr ''High''), (''dependencies'', JNull)]) []) =
     Inr (JObj [(''priority'', JStr ''Critical''),
                (''summary'', JStr ''Critical alert on h1''),
                (''description'', JStr ''CPU at 99%'')]) \<and>
   \<not> valid_AnalysisResult
      (JObj [(''priority'', JStr ''Critical''),
             (''summary'', JStr ''Critical alert on h1''),
             (''description'', JStr ''CPU at 99%'')])"
proof -
  let ?E = "example_env backends_down (Inr ''not json'') ''key''"
  let ?c = "JObj [(''criticality'', JStr ''High''), (''dependencies'', JNull)]"
  have r: "rule_based_analysis ?E example_alert (JArr []) ?c = Inl TypeError"
    by (simp add: rb_defs example_alert_def)
  have l: "llm_analysis ?E example_alert (JArr []) ?c [] =
      (Inl TypeError, [LLMCall (projr (analysis_prompt ?E example_alert (JArr []) ?c))])"
    by (simp add: llm_analysis_def llm_analysis_try_def prompt_defs example_env_def example_loads_def
          extract_json_text_def strip_def is_space_def is_Exception_def r[unfolded example_env_def])
  have a: "fst (analyze_incident ?E example_alert (JArr []) ?c []) = Inr (fallback_analysis example_alert)"
    unfolding analyze_incident_def analyze_incident_try_def wait_for_blocking_def l
    by (simp add: setup_llm_def example_env_def is_Exception_def)
  have f: "fallback_analysis example_alert =
      JObj [(''priority'', JStr ''Critical''),
            (''summary'', JStr ''Critical alert on h1''),
            (''description'', JStr ''CPU at 99%'')]"
    by (simp add: fallback_analysis_def example_alert_def)
  show ?thesis
    using r a fallback_not_valid[of example_alert] unfolding f by simp
qed

text \<open>
  What holds of the analysis step. It always returns an analysis: every exception of its
  \<^verbatim>\<open>try\<close> block is an \<^verbatim>\<open>Exception\<close> and is caught. Whenever the block fails, in
  particular when the strategy returns something that is not a dict, the analysis is the
  minimal fallback: priority the alert's severity, summary \<^verbatim>\<open>"<severity> alert on <host>"\<close>,
  description the alert's message.
\<close>

lemma analysis_absorbs_exceptions:
  "\<exists>an t1. analyze_incident E a logs cmdb t = (Inr an, t1) \<and>
     (\<forall>e t'. analyze_incident_try E a logs cmdb t = (Inl e, t') \<longrightarrow> an = fallback_analysis a \<and> t1 = t') \<and>
     (\<forall>v. (if setup_llm E then fst (llm_analysis E a logs cmdb t)
           else rule_based_analysis E a logs cmdb) = Inr v \<and> \<not> is_dict v \<longrightarrow> an = fallback_analysis a) \<and>
     dict_index (fallback_analysis a) ''priority'' = Inr (JStr (severity a)) \<and>
     dict_index (fallback_analysis a) ''summary'' = Inr (JStr (severity a @ '' alert on '' @ host a)) \<and>
     dict_index (fallback_analysis a) ''description'' = Inr (JStr (message a))"
proof -
  from analyze_returns[of E a logs cmdb t] obtain kvs ext where
    r: "analyze_incident E a logs cmdb t = (Inr (JObj kvs), t @ ext)" by blast
  have a: "\<forall>e t'. analyze_incident_try E a logs cmdb t = (Inl e, t') \<longrightarrow>
      JObj kvs = fallback_analysis a \<and> t @ ext = t'"
    using r unfolding analyze_incident_def by (auto split: if_splits)
  have c: "\<forall>v. (if setup_llm E then fst (llm_analysis E a logs cmdb t)
           else rule_based_analysis E a logs cmdb) = Inr v \<and> \<not> is_dict v \<longrightarrow> JObj kvs = fallback_analysis a"
  proof (intro allI impI)
    fix v
    assume h: "(if setup_llm E then fst (llm_analysis E a logs cmdb t)
           else rule_based_analysis E a logs cmdb) = Inr v \<and> \<not> is_dict v"
    obtain x t' where w: "(if setup_llm E then llm_analysis E a logs cmdb t
            else (rule_based_analysis E a logs cmdb, t)) = (x, t')"
      by (cases "(if setup_llm E then llm_analysis E a logs cmdb t
            else (rule_based_analysis E a logs cmdb, t))")
    with h have x: "x = Inr v" by (auto split: if_splits)
    from h have "analyze_incident_try E a logs cmdb t = (Inl (RuntimeError ''Analysis did not return a dict''), t')"
      unfolding analyze_incident_try_def wait_for_blocking_def w x by (cases v) auto
    with a show "JObj kvs = fallback_analysis a" by blast
  qed
  show ?thesis
    using r a c by (auto simp: fallback_analysis_def dict_index_def)
qed

text \<open>
  Claim C5, where the code departs from it. The claim counts a timeout among the failures
  that end in the minimal fallback, and the code asks for one: \<^verbatim>\<open>_llm_analysis\<close> is awaited
  under \<^verbatim>\<open>asyncio.wait_for\<close> with a deadline of 30 seconds. But \<^verbatim>\<open>_llm_analysis\<close> never
  suspends, so the deadline cannot fire. Here the provider answers a valid analysis after
  31 seconds: the step returns that late answer, of priority \<^verbatim>\<open>"Low"\<close>, and not the
  fallback built from the alert, whose severity is \<^verbatim>\<open>"Critical"\<close>.
\<close>

theorem late_llm_answer_is_used:
  "llm_elapsed slow_llm_env example_alert (JArr []) (JObj []) [] = 31 \<and>
   fst (analyze_incident slow_llm_env example_alert (JArr []) (JObj []) []) =
     Inr (JObj [(''priority'', JStr ''Low''), (''summary'', JStr ''s''), (''description'', JStr ''d'')])"
  by (simp add: analyze_incident_def analyze_incident_try_def wait_for_blocking_def llm_elapsed_def
        llm_analysis_def llm_analysis_try_def prompt_defs slow_llm_env_def example_env_def
        example_loads_def extract_json_text_def strip_def is_space_def setup_llm_def log_activity_def)

section \<open>Failures of log retrieval and enrichment are not fatal\<close>

lemma servicenow_cases:
  "\<exists>ext. create_servicenow_incident E a an t = (Inr (), t @ ext) \<and> \<not> list_ex ticket_step ext \<and>
     (\<forall>sargs. servicenow_arguments a an = Inr sargs \<longrightarrow>
        (\<exists>x d s. ext = [ToolCall ''cmdb'' ''create_incident'' sargs, LogActivity (alert_id a) x d s]))"
proof (cases "servicenow_arguments a an")
  case (Inl e)
  have "exc (servicenow_arguments a an)" by simp
  with Inl show ?thesis
    unfolding create_servicenow_incident_def create_servicenow_incident_try_def
    by (simp add: is_Exception_def log_activity_def)
next
  case (Inr sargs)
  obtain r where w: "wait_for (call_tool E ''cmdb'' ''create_incident'' sargs t)
      = (r, t @ [ToolCall ''cmdb'' ''create_incident'' sargs])" and r: "exc r"
    by (rule wait_call_tool[of "''cmdb''"]) simp_all
  have p: "\<And>x. exc (and_then (parse_tool_response E x) (\<lambda>incident_data.
                   dict_get incident_data ''incident_number'' (JStr ''SN-XXXX'')))"
    by (intro exc_and_then) simp_all
  show ?thesis
    using r p
    by (auto split: sum.splits
          simp: create_servicenow_incident_def create_servicenow_incident_try_def Inr w
                exc_def is_Exception_def log_activity_def)
qed

lemma save_ticket_cases:
  "\<exists>ext. snd (save_ticket_record E a an ticket st t) = t @ ext \<and> \<not> list_ex ticket_step ext"
  unfolding save_ticket_record_def
  by (auto split: sum.splits option.splits)

lemma process_alert_extends_ticket:
  assumes "retrieve_logs E a (alert_received a t) = (Inr logs, t2)"
      and "enrich_with_cmdb E a logs t2 = (Inr cmdb, t3)"
      and "analyze_incident E a logs cmdb t3 = (Inr an, t4)"
      and "create_jira_ticket E a an t4 = (r, t5)"
  shows "prefix t5 (snd (process_alert E a t))"
proof (cases r)
  case (Inl e)
  with assms show ?thesis
    unfolding process_alert_unfold[OF assms(1-3)] by simp
next
  case (Inr ticket)
  from servicenow_cases[of E a an t5] obtain ext where
    s: "create_servicenow_incident E a an t5 = (Inr (), t5 @ ext)" by blast
  from save_ticket_cases[of E a an ticket "clock E t" "t5 @ ext"] obtain ext2 where
    v: "snd (save_ticket_record E a an ticket (clock E t) (t5 @ ext)) = (t5 @ ext) @ ext2" by blast
  obtain x y where xy: "save_ticket_record E a an ticket (clock E t) (t5 @ ext) = (x, y)"
    by (cases "save_ticket_record E a an ticket (clock E t) (t5 @ ext)")
  with v have y: "y = t5 @ ext @ ext2" by simp
  show ?thesis
    unfolding process_alert_unfold[OF assms(1-3)] assms(4) Inr
    using s xy y by (cases x) (simp_all add: prefix_def)
qed

lemma pipeline_reaches_ticket:
  assumes "retrieve_logs E a (alert_received a t) = (Inr logs, t2)"
      and "enrich_with_cmdb E a logs t2 = (Inr cmdb, t3)"
      and "analyze_incident E a logs cmdb t3 = (Inr an, t4)"
  shows "\<exists>r t5. create_jira_ticket E a an t4 = (r, t5) \<and>
           prefix t5 (snd (process_alert E a t)) \<and>
           list_ex ticket_step (drop (length t4) t5) \<and>
           \<not> list_ex ticket_step (drop (length t) t4)"
proof -
  from create_jira_ticket_cases[of E a an t4] obtain r ext where
    c: "create_jira_ticket E a an t4 = (r, t4 @ ext)" "list_ex ticket_step ext" by blast
  from steps_before_ticket[OF assms] obtain ext0 where
    e: "t4 = t @ ext0" "\<not> list_ex ticket_step ext0" by blast
  from process_alert_extends_ticket[OF assms c(1)] c e show ?thesis by simp
qed

text \<open>
  Claim C7. If the log-retrieval call fails (an error, or the cancellation of a timeout),
  \<^verbatim>\<open>_retrieve_logs\<close> logs an error entry and returns the empty list; enrichment and analysis
  run on that empty list, \<^verbatim>\<open>_create_jira_ticket\<close> runs on their result, and the history of
  the whole run extends the history of that ticket-creation step, whose entry is written
  there and not before.
\<close>

theorem log_failure_is_not_fatal:
  assumes "transport E (alert_received a t) ''splunk'' ''query_logs'' (query_logs_arguments E a) = Inl e"
  shows "\<exists>t2 cmdb t3 an t4 r t5.
     retrieve_logs E a (alert_received a t) = (Inr (JArr []), t2) \<and>
     t2 = alert_received a t @
            [ToolCall ''splunk'' ''query_logs'' (query_logs_arguments E a),
             LogActivity (alert_id a) ''Logs Retrieval''
               (''Failed: '' @ str_exn E (if e = CancelledError then TimeoutError else e)) ''error''] \<and>
     enrich_with_cmdb E a (JArr []) t2 = (Inr cmdb, t3) \<and>
     analyze_incident E a (JArr []) cmdb t3 = (Inr an, t4) \<and>
     create_jira_ticket E a an t4 = (r, t5) \<and>
     prefix t5 (snd (process_alert E a t)) \<and>
     list_ex ticket_step (drop (length t4) t5) \<and>
     \<not> list_ex ticket_step (drop (length t) t4)"
proof -
  note l = retrieve_logs_fail[OF assms]
  from enrich_returns obtain cmdb t3 where c: "enrich_with_cmdb E a (JArr []) (snd (retrieve_logs E a (alert_received a t))) = (Inr cmdb, t3)"
    by blast
  from analyze_returns obtain kvs ext where n: "analyze_incident E a (JArr []) cmdb t3 = (Inr (JObj kvs), t3 @ ext)"
    by blast
  from c have c': "enrich_with_cmdb E a (JArr []) (alert_received a t @
            [ToolCall ''splunk'' ''query_logs'' (query_logs_arguments E a),
             LogActivity (alert_id a) ''Logs Retrieval''
               (''Failed: '' @ str_exn E (if e = CancelledError then TimeoutError else e)) ''error'']) = (Inr cmdb, t3)"
    by (simp add: l)
  from pipeline_reaches_ticket[OF l c' n] l c' n show ?thesis by blast
qed

theorem log_failure_is_not_fatal_witness:
  "fst (retrieve_logs (example_env backends_down (Inr []) []) example_alert
          (alert_received example_alert [])) = Inr (JArr []) \<and>
   list_ex ticket_step (snd (process_alert (example_env backends_down (Inr []) []) example_alert []))"
proof -
  let ?E = "example_env backends_down (Inr []) []"
  have "transport ?E (alert_received example_alert []) ''splunk'' ''query_logs''
          (query_logs_arguments ?E example_alert) = Inl (OtherError ''ConnectionError'' ''backend unreachable'')"
    by (simp add: example_env_def backends_down_def)
  from log_failure_is_not_fatal[OF this] obtain t2 and t4 t5 :: "event list" where
    "retrieve_logs ?E example_alert (alert_received example_alert []) = (Inr (JArr []), t2)"
    "prefix t5 (snd (process_alert ?E example_alert []))"
    "list_ex ticket_step (drop (length t4) t5)"
    by blast
  then show ?thesis
    by (auto intro: list_ex_prefix list_ex_drop)
qed

lemma no_assignee_DevOps:
  assumes "map_of kvs ''assigned_to'' = None" and "jira_arguments E (JObj kvs) = Inr args"
  shows "dict_index args ''assignee'' = Inr (JStr ''DevOps'')"
  using assms unfolding jira_arguments_def
  by (auto simp: dict_get_def dict_index_def)

lemma analyze_rule_only_no_assignee:
  assumes "\<not> setup_llm E" and "analyze_incident E a logs cmdb t = (Inr an, t4)"
  shows "\<exists>kvs. an = JObj kvs \<and> map_of kvs ''assigned_to'' = None"
proof -
  from analyze_rule_only[OF assms(1), of a logs cmdb t] assms(2)
  have an: "an = (case rule_based_analysis E a logs cmdb of Inr r \<Rightarrow> r | Inl e \<Rightarrow> fallback_analysis a)"
    by simp
  show ?thesis
  proof (cases "rule_based_analysis E a logs cmdb")
    case (Inl e)
    with an show ?thesis by (simp add: fallback_analysis_def)
  next
    case (Inr r)
    from rule_based_Inr[OF Inr] an Inr show ?thesis by auto
  qed
qed

text \<open>
  Claim C8, as the code has it. If the enrichment call fails (an error, or the cancellation
  of a timeout), \<^verbatim>\<open>_enrich_with_cmdb\<close> logs an error entry and returns the empty dict, and the
  run goes on to analysis and ticket creation. The handler sets no owner. The only default
  the code has is the assignee \<^verbatim>\<open>"DevOps"\<close> of the ticket, used when the analysis names none,
  which is always so when no LLM is configured.
\<close>

theorem enrichment_failure_is_not_fatal:
  assumes "retrieve_logs E a (alert_received a t) = (Inr logs, t2)"
      and "transport E t2 ''cmdb'' ''get_asset_info'' (asset_info_arguments a) = Inl e"
  shows "\<exists>t3 an t4 r t5.
     enrich_with_cmdb E a logs t2 = (Inr (JObj []), t3) \<and>
     t3 = t2 @ [ToolCall ''cmdb'' ''get_asset_info'' (asset_info_arguments a),
                LogActivity (alert_id a) ''CMDB Query''
                  (''Failed: '' @ str_exn E (if e = CancelledError then TimeoutError else e)) ''error''] \<and>
     analyze_incident E a logs (JObj []) t3 = (Inr an, t4) \<and>
     create_jira_ticket E a an t4 = (r, t5) \<and>
     prefix t5 (snd (process_alert E a t)) \<and>
     list_ex ticket_step (drop (length t4) t5) \<and>
     (\<not> setup_llm E \<longrightarrow>
        (\<forall>args. jira_arguments E an = Inr args \<longrightarrow> dict_index args ''assignee'' = Inr (JStr ''DevOps'')))"
proof -
  note c = enrich_fail[OF assms(2), of logs]
  from analyze_returns obtain kvs ext where
    n: "analyze_incident E a logs (JObj []) (snd (enrich_with_cmdb E a logs t2)) = (Inr (JObj kvs), snd (enrich_with_cmdb E a logs t2) @ ext)"
    by blast
  then have n': "analyze_incident E a logs (JObj []) (t2 @ [ToolCall ''cmdb'' ''get_asset_info'' (asset_info_arguments a),
                LogActivity (alert_id a) ''CMDB Query''
                  (''Failed: '' @ str_exn E (if e = CancelledError then TimeoutError else e)) ''error'']) = (Inr (JObj kvs), snd (enrich_with_cmdb E a logs t2) @ ext)"
    by (simp add: c)
  have d: "\<not> setup_llm E \<longrightarrow>
        (\<forall>args. jira_arguments E (JObj kvs) = Inr args \<longrightarrow> dict_index args ''assignee'' = Inr (JStr ''DevOps''))"
    using analyze_rule_only_no_assignee[OF _ n'] no_assignee_DevOps by blast
  from pipeline_reaches_ticket[OF assms(1) c n'] c n' d show ?thesis by blast
qed

theorem enrichment_failure_is_not_fatal_witness:
  "fst (enrich_with_cmdb (example_env backends_down (Inr []) []) example_alert (JArr [])
         (alert_received example_alert [] @
           [ToolCall ''splunk'' ''query_logs''
              (query_logs_arguments (example_env backends_down (Inr []) []) example_alert),
            LogActivity ''a-1'' ''Logs Retrieval'' ''Failed: backend unreachable'' ''error''])) =
     Inr (JObj []) \<and>
   list_ex ticket_step (snd (process_alert (example_env backends_down (Inr []) []) example_alert []))"
proof -
  let ?E = "example_env backends_down (Inr []) []"
  let ?t2 = "alert_received example_alert [] @
      [ToolCall ''splunk'' ''query_logs'' (query_logs_arguments ?E example_alert),
       LogActivity ''a-1'' ''Logs Retrieval'' ''Failed: backend unreachable'' ''error'']"
  have h1: "retrieve_logs ?E example_alert (alert_received example_alert []) = (Inr (JArr []), ?t2)"
    by (simp add: ex_defs step_defs)
  have h2: "transport ?E ?t2 ''cmdb'' ''get_asset_info'' (asset_info_arguments example_alert) =
      Inl (OtherError ''ConnectionError'' ''backend unreachable'')"
    by (simp add: example_env_def backends_down_def)
  from enrichment_failure_is_not_fatal[OF h1 h2] obtain t3 and t4 t5 :: "event list" where
    "enrich_with_cmdb ?E example_alert (JArr []) ?t2 = (Inr (JObj []), t3)"
    "prefix t5 (snd (process_alert ?E example_alert []))"
    "list_ex ticket_step (drop (length t4) t5)"
    by blast
  then show ?thesis
    by (auto intro: list_ex_prefix list_ex_drop)
qed

text \<open>
  A run in which every backend but the ticketing one is down and no LLM is configured: the
  enrichment data is the empty dict, and the ticket is assigned to \<^verbatim>\<open>"DevOps"\<close>. The string
  \<^verbatim>\<open>"unassigned-default-team"\<close> occurs nowhere in the code.
\<close>

theorem default_owner_counterexample:
  "fst (enrich_with_cmdb (example_env only_jira (Inr []) []) example_alert (JArr []) []) = Inr (JObj []) \<and>
   (case fst (process_alert (example_env only_jira (Inr []) []) example_alert []) of
      Inr ticket \<Rightarrow> assigned_to ticket | Inl e \<Rightarrow> ''no ticket'') = ''DevOps''"
  by (simp add: process_alert_def Let_def ex_defs step_defs rb_defs ticket_defs later_defs)

section \<open>A ticketing response without a ticket id\<close>

lemma ticket_from_result_ok:
  assumes "s \<noteq> []" and "json_loads E s = Inr (JObj flds)" and "map_of flds ''ticket_id'' = None"
      and "opt_str_field (case map_of flds ''url'' of None \<Rightarrow> JStr [] | Some v \<Rightarrow> v) = Inr uo"
      and "dict_index an ''priority'' = Inr (JStr p)"
      and "dict_index an ''summary'' = Inr (JStr sm)"
      and "dict_index an ''description'' = Inr (JStr d)"
      and "dict_get an ''assigned_to'' (JStr ''DevOps'') = Inr (JStr asg)"
  shows "ticket_from_result E a an (JStr s) t1 =
     (Inr \<lparr>ticket_id = JIRA_PROJECT_KEY E @ ''-XXXX'', priority = p, summary = sm, description = d,
           assigned_to = asg, url = uo,
           created_at = clock E (t1 @ [ClockRead, LogActivity (alert_id a) ''Ticket Created''
                           (JIRA_PROJECT_KEY E @ ''-XXXX assigned to '' @ asg) ''complete'']),
           processing_time = clock E t1 - timestamp a\<rparr>,
      t1 @ [ClockRead,
            LogActivity (alert_id a) ''Ticket Created''
              (JIRA_PROJECT_KEY E @ ''-XXXX assigned to '' @ asg) ''complete'',
            ClockRead])"
  using assms
  by (simp add: ticket_from_result_def parse_tool_response_def dict_get_def TicketResponse_def
        str_field_def log_activity_def py_str_def Let_def)

lemma servicenow_arguments_ok:
  assumes "dict_index an ''priority'' = Inr (JStr p)"
      and "dict_index an ''summary'' = Inr sm"
      and "dict_index an ''description'' = Inr d"
  shows "\<exists>sargs. servicenow_arguments a an = Inr sargs"
  using assms
  by (simp add: servicenow_arguments_def map_priority_to_urgency_def map_priority_to_impact_def)

text \<open>
  Claim C10, as the code has it. Let the ticketing backend answer the call with a text that
  parses as a JSON object without a \<^verbatim>\<open>ticket_id\<close> field, whose \<^verbatim>\<open>url\<close>, if any, is a string
  or null; and let priority, summary, description and assignee of the analysis be strings.
  Then ticket creation succeeds with the ticket id \<^verbatim>\<open><JIRA_PROJECT_KEY>-XXXX\<close>, the url is the
  empty string when the response has none, and the run goes on: the \<^verbatim>\<open>create_incident\<close> call
  is made, the ticket record with the placeholder id is handed to the session, and
  \<^verbatim>\<open>process_alert\<close> returns the ticket unless the session refuses the record.
\<close>

theorem ticket_without_id_gets_placeholder:
  assumes "retrieve_logs E a (alert_received a t) = (Inr logs, t2)"
      and "enrich_with_cmdb E a logs t2 = (Inr cmdb, t3)"
      and "analyze_incident E a logs cmdb t3 = (Inr an, t4)"
      and "jira_arguments E an = Inr args"
      and "transport E t4 ''jira'' ''create_ticket'' args = Inr resp"
      and "extract_text_content resp = Inr (JStr s)"
      and "s \<noteq> []" and "json_loads E s = Inr (JObj flds)" and "map_of flds ''ticket_id'' = None"
      and "opt_str_field (case map_of flds ''url'' of None \<Rightarrow> JStr [] | Some v \<Rightarrow> v) = Inr uo"
      and "dict_index an ''priority'' = Inr (JStr p)"
      and "dict_index an ''summary'' = Inr (JStr sm)"
      and "dict_index an ''description'' = Inr (JStr d)"
      and "dict_get an ''assigned_to'' (JStr ''DevOps'') = Inr (JStr asg)"
  shows "\<exists>ticket t5 sargs x dd st rec.
     create_jira_ticket E a an t4 = (Inr ticket, t5) \<and>
     ticket_id ticket = JIRA_PROJECT_KEY E @ ''-XXXX'' \<and>
     url ticket = uo \<and>
     (map_of flds ''url'' = None \<longrightarrow> url ticket = Some []) \<and>
     snd (process_alert E a t) =
       t5 @ [ToolCall ''cmdb'' ''create_incident'' sargs, LogActivity (alert_id a) x dd st, SaveTicket rec] \<and>
     tr_ticket_id rec = JIRA_PROJECT_KEY E @ ''-XXXX'' \<and>
     fst (process_alert E a t) =
       (case db_commit E (t5 @ [ToolCall ''cmdb'' ''create_incident'' sargs, LogActivity (alert_id a) x dd st]) rec of
          None \<Rightarrow> Inr ticket | Some e \<Rightarrow> Inl e)"
proof -
  define t1 where "t1 = t4 @ [ToolCall ''jira'' ''create_ticket'' args]"
  define ticket where "ticket =
         \<lparr>ticket_id = JIRA_PROJECT_KEY E @ ''-XXXX'', priority = p, summary = sm, description = d,
           assigned_to = asg, url = uo,
           created_at = clock E (t1 @ [ClockRead, LogActivity (alert_id a) ''Ticket Created''
                           (JIRA_PROJECT_KEY E @ ''-XXXX assigned to '' @ asg) ''complete'']),
           processing_time = clock E t1 - timestamp a\<rparr>"
  define t5 where "t5 = t1 @ [ClockRead,
            LogActivity (alert_id a) ''Ticket Created''
              (JIRA_PROJECT_KEY E @ ''-XXXX assigned to '' @ asg) ''complete'',
            ClockRead]"
  have w: "wait_for (call_tool E ''jira'' ''create_ticket'' args t4) = (Inr (JStr s), t1)"
    using assms(5,6) by (simp add: call_tool_known t1_def)
  have j: "create_jira_ticket E a an t4 = (Inr ticket, t5)"
    unfolding create_jira_ticket_def create_jira_ticket_try_def ticket_def t5_def
    by (simp add: assms(4) w ticket_from_result_ok[OF assms(7-14)])
  from servicenow_arguments_ok[OF assms(11-13)] obtain sargs where
    sa: "servicenow_arguments a an = Inr sargs" by blast
  from servicenow_cases[of E a an t5] sa obtain x dd st where
    sn: "create_servicenow_incident E a an t5 =
      (Inr (), t5 @ [ToolCall ''cmdb'' ''create_incident'' sargs, LogActivity (alert_id a) x dd st])"
    by auto
  define t6 where "t6 = t5 @ [ToolCall ''cmdb'' ''create_incident'' sargs, LogActivity (alert_id a) x dd st]"
  define trec where "trec =
               \<lparr>tr_ticket_id = ticket_id ticket, tr_alert_id = alert_id a, tr_host = host a,
                tr_severity = severity a, tr_priority = JStr p, tr_summary = JStr sm, tr_description = JStr d,
                tr_assigned_to = assigned_to ticket, tr_processing_time = processing_time ticket,
                tr_status = ''created''\<rparr>"
  have sv: "save_ticket_record E a an ticket (clock E t) t6 =
      (case db_commit E t6 trec of Some e \<Rightarrow> (Inl e, t6 @ [SaveTicket trec])
         | None \<Rightarrow> (Inr (), t6 @ [SaveTicket trec]))"
    unfolding save_ticket_record_def trec_def by (simp add: assms(11-13))
  have pa: "process_alert E a t =
      (case db_commit E t6 trec of Some e \<Rightarrow> (Inl e, t6 @ [SaveTicket trec])
         | None \<Rightarrow> (Inr ticket, t6 @ [SaveTicket trec]))"
    unfolding process_alert_unfold[OF assms(1-3)] j
    by (simp add: sn[folded t6_def] sv split: option.splits)
  have u: "map_of flds ''url'' = None \<longrightarrow> uo = Some []"
    using assms(10) by (auto simp: opt_str_field_def)
  have k: "ticket_id ticket = JIRA_PROJECT_KEY E @ ''-XXXX''" "url ticket = uo"
    "tr_ticket_id trec = JIRA_PROJECT_KEY E @ ''-XXXX''"
    by (simp_all add: ticket_def trec_def)
  have f: "fst (process_alert E a t) = (case db_commit E t6 trec of None \<Rightarrow> Inr ticket | Some e \<Rightarrow> Inl e)"
    and g: "snd (process_alert E a t) = t6 @ [SaveTicket trec]"
    unfolding pa by (simp_all split: option.splits)
  show ?thesis
    apply (rule exI[of _ ticket], rule exI[of _ t5], rule exI[of _ sargs], rule exI[of _ x],
           rule exI[of _ dd], rule exI[of _ st], rule exI[of _ trec])
    using j u k f g by (simp add: t6_def)
qed

theorem ticket_without_id_gets_placeholder_witness:
  "(case fst (process_alert (example_env only_jira (Inr []) []) example_alert []) of
      Inr ticket \<Rightarrow> ticket_id ticket | Inl e \<Rightarrow> ''no ticket'') = ''OPS-XXXX'' \<and>
   list_ex later_step (snd (process_alert (example_env only_jira (Inr []) []) example_alert []))"
proof -
  let ?E = "example_env only_jira (Inr []) []"
  let ?t2 = "alert_received example_alert [] @
      [ToolCall ''splunk'' ''query_logs'' (query_logs_arguments ?E example_alert),
       LogActivity ''a-1'' ''Logs Retrieval'' ''Failed: backend unreachable'' ''error'']"
  let ?t3 = "?t2 @ [ToolCall ''cmdb'' ''get_asset_info'' (asset_info_arguments example_alert),
       LogActivity ''a-1'' ''CMDB Query'' ''Failed: backend unreachable'' ''error'']"
  let ?r = "analyze_incident ?E example_alert (JArr []) (JObj []) ?t3"
  let ?an = "projr (fst ?r)"
  let ?s = "''{\"status\": \"created\"}''"
  have h1: "retrieve_logs ?E example_alert (alert_received example_alert []) = (Inr (JArr []), ?t2)"
    by (simp add: ex_defs step_defs only_jira_def)
  have h2: "enrich_with_cmdb ?E example_alert (JArr []) ?t2 = (Inr (JObj []), ?t3)"
    by (simp add: ex_defs step_defs only_jira_def)
  have h3: "?r = (Inr ?an, snd ?r)"
    by (simp add: ex_defs step_defs rb_defs)
  have h4: "jira_arguments ?E ?an = Inr (projr (jira_arguments ?E ?an))"
    by (simp add: ex_defs step_defs rb_defs jira_arguments_def dict_index_def)
  have h5: "transport ?E (snd ?r) ''jira'' ''create_ticket'' (projr (jira_arguments ?E ?an)) = Inr (text_reply ?s)"
    by (simp add: example_env_def only_jira_def)
  have h6: "extract_text_content (text_reply ?s) = Inr (JStr ?s)"
    by (simp add: text_reply_def extract_text_content_def dict_get_def py_iter_def)
  have h7: "?s \<noteq> []" by simp
  have h8: "json_loads ?E ?s = Inr (JObj [(''status'', JStr ''created'')])"
    by (simp add: example_env_def example_loads_def)
  have h9: "map_of [(''status'', JStr ''created'')] ''ticket_id'' = None" by simp
  have h10: "opt_str_field (case map_of [(''status'', JStr ''created'')] ''url'' of None \<Rightarrow> JStr [] | Some v \<Rightarrow> v) = Inr (Some [])"
    by (simp add: opt_str_field_def)
  have h11: "dict_index ?an ''priority'' = Inr (JStr ''High'')"
    by (simp add: ex_defs step_defs rb_defs dict_index_def)
  have h12: "dict_index ?an ''summary'' = Inr (JStr ''Critical Alert: CPU at 99% on h1'')"
    by (simp add: ex_defs step_defs rb_defs dict_index_def)
  have h13: "dict_index ?an ''description'' =
      Inr (JStr (case projr (dict_index ?an ''description'') of JStr x \<Rightarrow> x | _ \<Rightarrow> []))"
    by (simp add: ex_defs step_defs rb_defs dict_index_def)
  have h14: "dict_get ?an ''assigned_to'' (JStr ''DevOps'') = Inr (JStr ''DevOps'')"
    by (simp add: ex_defs step_defs rb_defs)
  from ticket_without_id_gets_placeholder[OF h1 h2 h3 h4 h5 h6 h7 h8 h9 h10 h11 h12 h13 h14]
  obtain ticket t5 sargs x dd st trec where
    k: "ticket_id ticket = JIRA_PROJECT_KEY ?E @ ''-XXXX''"
    and g: "snd (process_alert ?E example_alert []) =
       t5 @ [ToolCall ''cmdb'' ''create_incident'' sargs, LogActivity (alert_id example_alert) x dd st, SaveTicket trec]"
    and f: "fst (process_alert ?E example_alert []) =
       (case db_commit ?E (t5 @ [ToolCall ''cmdb'' ''create_incident'' sargs, LogActivity (alert_id example_alert) x dd st]) trec of
          None \<Rightarrow> Inr ticket | Some e \<Rightarrow> Inl e)"
    by blast
  have a: "(case fst (process_alert ?E example_alert []) of
      Inr ticket \<Rightarrow> ticket_id ticket | Inl e \<Rightarrow> ''no ticket'') = ''OPS-XXXX''"
    unfolding f using k by (simp add: example_env_def)
  have b: "list_ex later_step (snd (process_alert ?E example_alert []))"
    unfolding g by simp
  from a b show ?thesis by simp
qed

text \<open>
  A run in which the ticketing backend answers \<^verbatim>\<open>{"status": "created"}\<close>, an object without
  \<^verbatim>\<open>ticket_id\<close>, and the LLM gave an analysis whose priority is a list: the ticket is filed
  by the backend, \<^verbatim>\<open>TicketResponse\<close> rejects the priority, and ticket creation fails.
\<close>

theorem ticket_without_id_counterexample:
  "fst (process_alert
         (example_env only_jira
            (Inr ''{\"priority\": [\"High\"], \"summary\": \"s\", \"description\": \"d\"}'') ''key'')
         example_alert []) =
     Inl (HTTPException 500 ''Failed to create ticket: validation error for TicketResponse'')"
  by (simp add: process_alert_def Let_def ex_defs step_defs prompt_defs ticket_defs py_iter_def
        llm_analysis_def llm_analysis_try_def extract_json_text_def strip_def is_space_def)

section \<open>The severity of a host in the batch scan\<close>

lemma map_of_update_host:
  "map_of (update_host k f hs) k' = (if k' = k then map_option f (map_of hs k) else map_of hs k')"
  by (induction hs) (auto simp: update_host_def)

lemma sev_of_update_other:
  "sev_of (update_host k (\<lambda>d. d\<lparr>error_count := g d, messages := m d\<rparr>) hs) k' = sev_of hs k'"
  by (cases "map_of hs k") (auto simp: sev_of_def map_of_update_host)

lemma sev_of_set:
  "map_of hs k \<noteq> None \<Longrightarrow>
   sev_of (update_host k (\<lambda>d. d\<lparr>hd_severity := v\<rparr>) hs) k' = (if k' = k then v else sev_of hs k')"
  by (auto simp: sev_of_def map_of_update_host)

lemma sev_of_new:
  "map_of hs k = None \<Longrightarrow>
   sev_of (hs @ [(k, \<lparr>hd_host = h, error_count = 0, messages = [], hd_severity = ''Medium'', latest_timestamp = ts\<rparr>)]) k' = sev_of hs k'"
  by (auto simp: sev_of_def map_add_def split: option.splits)

lemma map_of_update_host_None:
  "map_of (update_host k f hs) k' = None \<longleftrightarrow> map_of hs k' = None"
  by (auto simp: map_of_update_host)

lemma scan_event_sev:
  assumes "scan_event E ev hs t = (Inr hs', t')"
  shows "sev_of hs' k =
     (case event_raw_for k ev of
        Some s \<Rightarrow> if matches_rule s then rule_severity s else sev_of hs k
      | None \<Rightarrow> sev_of hs k)"
proof -
  from assms obtain h raw where
    g: "dict_get ev ''host'' (JStr ''unknown'') = Inr h" "dict_get ev ''_raw'' (JStr []) = Inr raw"
    unfolding scan_event_def by (auto split: sum.splits if_splits simp: and_then_Inl)
  from assms g obtain s where raw: "raw = JStr s"
    unfolding scan_event_def Let_def
    by (cases raw) (auto split: sum.splits if_splits prod.splits)
  define hs1 where "hs1 = (if map_of hs (py_key h) = None
                 then hs @ [(py_key h,
                         \<lparr>hd_host = h, error_count = 0, messages = [], hd_severity = ''Medium'',
                          latest_timestamp =
                            (case dict_get ev ''_time'' (JStr (isoformat E (clock E t))) of
                               Inr ts \<Rightarrow> ts | Inl e \<Rightarrow> JNull)\<rparr>)]
                 else hs)"
  have p1: "map_of hs1 (py_key h) \<noteq> None"
    unfolding hs1_def by (auto simp: map_add_def)
  have s1: "sev_of hs1 k = sev_of hs k"
    unfolding hs1_def by (simp add: sev_of_new)
  define hs2 where "hs2 = update_host (py_key h)
        (\<lambda>d. d\<lparr>error_count := error_count d + 1, messages := messages d @ [JStr (take 200 s)]\<rparr>) hs1"
  have p2: "map_of hs2 (py_key h) \<noteq> None"
    unfolding hs2_def using p1 by (simp add: map_of_update_host)
  have s2: "sev_of hs2 k = sev_of hs k"
    unfolding hs2_def using s1 by (simp add: sev_of_update_other)
  have r: "hs' = (if critical_rule s then update_host (py_key h) (\<lambda>d. d\<lparr>hd_severity := ''Critical''\<rparr>) hs2
                  else if high_rule s then update_host (py_key h) (\<lambda>d. d\<lparr>hd_severity := ''High''\<rparr>) hs2
                  else hs2)"
    using assms g raw unfolding scan_event_def Let_def hs2_def hs1_def critical_rule_def high_rule_def
    by (auto simp: py_slice_def split: if_splits)
  have e: "event_raw_for k ev = (if py_key h = k then Some s else None)"
    using g raw by (simp add: event_raw_for_def)
  show ?thesis
    unfolding r e using p2 s2
    by (auto simp: sev_of_set matches_rule_def rule_severity_def)
qed

lemma fold_events_sev:
  "fold_events E evs hs t = (Inr hs', t') \<Longrightarrow>
   sev_of hs' k =
     (if filter matches_rule (host_raws k evs) = [] then sev_of hs k
      else rule_severity (last (filter matches_rule (host_raws k evs))))"
proof (induction evs arbitrary: hs t)
  case Nil
  then show ?case by (simp add: host_raws_def map_filter_simps)
next
  case (Cons ev evs)
  from Cons.prems obtain hs1 t1 where
    a: "scan_event E ev hs t = (Inr hs1, t1)" and b: "fold_events E evs hs1 t1 = (Inr hs', t')"
    by (auto split: sum.splits prod.splits)
  note ih = Cons.IH[OF b]
  note st = scan_event_sev[OF a, of k]
  show ?case
  proof (cases "event_raw_for k ev")
    case None
    with ih st show ?thesis by (simp add: host_raws_def map_filter_simps)
  next
    case (Some s)
    with ih st show ?thesis by (simp add: host_raws_def map_filter_simps)
  qed
qed

text \<open>
  Claim C3, as the code has it. Each event that matches a rule sets the severity of its host
  anew, \<^verbatim>\<open>"Critical"\<close> for critical, fatal, panic or outage and otherwise \<^verbatim>\<open>"High"\<close> for high,
  severe or major, whatever the severity was; an event that matches no rule leaves it as it
  is. So after the fold the severity of a host is the one of its last event that matches a
  rule, and \<^verbatim>\<open>"Medium"\<close> if none does. It is not monotone: a later event that matches only
  the second rule lowers a host from \<^verbatim>\<open>"Critical"\<close> to \<^verbatim>\<open>"High"\<close>.
\<close>

theorem host_severity_is_last_match:
  assumes "fold_events E evs [] t = (Inr hs, t')" and "map_of hs k = Some d"
  shows "hd_severity d = last_match_severity (host_raws k evs)"
  using fold_events_sev[OF assms(1), of k] assms(2)
  by (simp add: sev_of_def last_match_severity_def)

lemmas scan_defs = scan_event_def host_event_def dict_get_def py_key_def py_slice_def update_host_def
  critical_keywords_def high_keywords_def lower_def lower_char_def example_env_def

text \<open>Scenario C of the specification: a fatal outage, then a minor notice, on one host.\<close>

theorem host_severity_is_last_match_witness:
  "map_option hd_severity
     (map_of (projr (fst (fold_events (example_env backends_down (Inr []) [])
                 [host_event ''h1'' ''fatal outage'', host_event ''h1'' ''minor notice''] [] [])))
        (JStr ''h1'')) = Some ''Critical''"
proof -
  let ?E = "example_env backends_down (Inr []) []"
  let ?evs = "[host_event ''h1'' ''fatal outage'', host_event ''h1'' ''minor notice'']"
  let ?r = "fold_events ?E ?evs [] []"
  have a: "?r = (Inr (projr (fst ?r)), snd ?r)"
    by (simp add: scan_defs)
  have "\<exists>d. map_of (projr (fst ?r)) (JStr ''h1'') = Some d"
    by (simp add: scan_defs)
  then obtain d where b: "map_of (projr (fst ?r)) (JStr ''h1'') = Some d" by blast
  have c: "last_match_severity (host_raws (JStr ''h1'') ?evs) = ''Critical''"
    by (simp add: last_match_severity_def host_raws_def map_filter_simps event_raw_for_def
          matches_rule_def rule_severity_def critical_rule_def high_rule_def scan_defs)
  from host_severity_is_last_match[OF a b] have "hd_severity d = last_match_severity (host_raws (JStr ''h1'') ?evs)" .
  then have h: "hd_severity d = ''Critical''"
    by (simp only: c)
  show ?thesis
    by (simp only: b option.map h)
qed

text \<open>
  A fatal outage, then a message that matches only the second rule, on one host: the host is
  \<^verbatim>\<open>"Critical"\<close> after the first event and \<^verbatim>\<open>"High"\<close> after the second.
\<close>

theorem severity_downgrade_counterexample:
  "map_option hd_severity
     (map_of (projr (fst (fold_events (example_env backends_down (Inr []) [])
                 [host_event ''h1'' ''fatal outage''] [] [])))
        (JStr ''h1'')) = Some ''Critical'' \<and>
   map_option hd_severity
     (map_of (projr (fst (fold_events (example_env backends_down (Inr []) [])
                 [host_event ''h1'' ''fatal outage'', host_event ''h1'' ''high load''] [] [])))
        (JStr ''h1'')) = Some ''High''"
  by (simp add: scan_defs)

section \<open>The search of the batch scan\<close>

lemma ticket_from_result_no_search:
  "\<exists>ext. snd (ticket_from_result E a an res t) = t @ ext \<and> \<not> list_ex is_search ext"
  unfolding ticket_from_result_def Let_def
  by (auto split: sum.splits prod.splits simp: log_activity_def)

lemma create_jira_ticket_try_no_search:
  "\<exists>r ext. create_jira_ticket_try E a an t = (r, t @ ext) \<and> \<not> list_ex is_search ext"
proof (cases "jira_arguments E an")
  case (Inl e)
  then show ?thesis unfolding create_jira_ticket_try_def by simp
next
  case (Inr args)
  obtain r where w: "wait_for (call_tool E ''jira'' ''create_ticket'' args t)
      = (r, t @ [ToolCall ''jira'' ''create_ticket'' args])"
    by (rule wait_call_tool[of "''jira''"]) simp_all
  show ?thesis
  proof (cases r)
    case (Inl e)
    with Inr w show ?thesis unfolding create_jira_ticket_try_def by simp
  next
    case (Inr res)
    from ticket_from_result_no_search[of E a an res "t @ [ToolCall ''jira'' ''create_ticket'' args]"]
    obtain ext where x: "snd (ticket_from_result E a an res (t @ [ToolCall ''jira'' ''create_ticket'' args]))
        = (t @ [ToolCall ''jira'' ''create_ticket'' args]) @ ext" "\<not> list_ex is_search ext" by blast
    obtain r2 where "ticket_from_result E a an res (t @ [ToolCall ''jira'' ''create_ticket'' args])
        = (r2, (t @ [ToolCall ''jira'' ''create_ticket'' args]) @ ext)"
      using x(1) by (cases "ticket_from_result E a an res (t @ [ToolCall ''jira'' ''create_ticket'' args])") auto
    with Inr w \<open>jira_arguments E an = Inr args\<close> x(2) show ?thesis
      unfolding create_jira_ticket_try_def
      by (intro exI[of _ r2] exI[of _ "ToolCall ''jira'' ''create_ticket'' args # ext"]) simp
  qed
qed

lemma create_jira_ticket_no_search:
  "\<exists>r ext. create_jira_ticket E a an t = (r, t @ ext) \<and> \<not> list_ex is_search ext"
proof -
  from create_jira_ticket_try_no_search[of E a an t]
  obtain r ext where c: "create_jira_ticket_try E a an t = (r, t @ ext)" "\<not> list_ex is_search ext" by blast
  then show ?thesis
    unfolding create_jira_ticket_def
    by (cases r) (auto simp: log_activity_def)
qed

lemma servicenow_no_search:
  "\<exists>r ext. create_servicenow_incident E a an t = (r, t @ ext) \<and> \<not> list_ex is_search ext"
proof (cases "servicenow_arguments a an")
  case (Inl e)
  then show ?thesis
    unfolding create_servicenow_incident_def create_servicenow_incident_try_def
    by (simp add: log_activity_def)
next
  case (Inr sargs)
  obtain r where w: "wait_for (call_tool E ''cmdb'' ''create_incident'' sargs t)
      = (r, t @ [ToolCall ''cmdb'' ''create_incident'' sargs])"
    by (rule wait_call_tool[of "''cmdb''"]) simp_all
  show ?thesis
    by (auto split: sum.splits
          simp: create_servicenow_incident_def create_servicenow_incident_try_def Inr w log_activity_def)
qed

lemma save_ticket_no_search:
  "\<exists>r ext. save_ticket_record E a an ticket st t = (r, t @ ext) \<and> \<not> list_ex is_search ext"
  unfolding save_ticket_record_def
  by (auto split: sum.splits option.splits)

lemma process_alert_no_search:
  "\<exists>r ext. process_alert E a t = (r, t @ ext) \<and> \<not> list_ex is_search ext"
proof -
  from retrieve_logs_returns[of E a "alert_received a t"] obtain logs e2 where
    l: "retrieve_logs E a (alert_received a t) = (Inr logs, alert_received a t @ e2)"
       "\<not> list_ex is_search e2"
    by (auto simp: query_logs_arguments_def)
  from enrich_returns[of E a logs "alert_received a t @ e2"] obtain cmdb e3 where
    c: "enrich_with_cmdb E a logs (alert_received a t @ e2) = (Inr cmdb, (alert_received a t @ e2) @ e3)"
       "\<not> list_ex is_search e3"
    by auto
  from analyze_returns[of E a logs cmdb "(alert_received a t @ e2) @ e3"] obtain kvs e4 where
    n: "analyze_incident E a logs cmdb ((alert_received a t @ e2) @ e3) = (Inr (JObj kvs), ((alert_received a t @ e2) @ e3) @ e4)"
    and n4: "list_all (\<lambda>ev. (\<exists>p. ev = LLMCall p) \<or> (\<exists>d. ev = LogActivity (alert_id a) ''Analysis Complete'' d ''complete'')) e4"
    by blast
  from n4 have n4': "\<not> list_ex is_search e4" by (induction e4) auto
  define t4 where "t4 = ((alert_received a t @ e2) @ e3) @ e4"
  have t4: "\<exists>x. t4 = t @ x \<and> \<not> list_ex is_search x"
    unfolding t4_def using l(2) c(2) n4' by (simp add: alert_received_ext)
  then obtain x4 where x4: "t4 = t @ x4" "\<not> list_ex is_search x4" by blast
  from create_jira_ticket_no_search[of E a "JObj kvs" t4] obtain r5 e5 where
    j: "create_jira_ticket E a (JObj kvs) t4 = (r5, t4 @ e5)" "\<not> list_ex is_search e5" by blast
  note u = process_alert_unfold[OF l(1) c(1) n[folded t4_def]]
  show ?thesis
  proof (cases r5)
    case (Inl e)
    with u j x4 show ?thesis
      by (intro exI[of _ "Inl e"] exI[of _ "x4 @ e5"]) simp
  next
    case (Inr ticket)
    from servicenow_no_search[of E a "JObj kvs" "t4 @ e5"] obtain r6 e6 where
      s: "create_servicenow_incident E a (JObj kvs) (t4 @ e5) = (r6, (t4 @ e5) @ e6)" "\<not> list_ex is_search e6" by blast
    from save_ticket_no_search[of E a "JObj kvs" ticket "clock E t" "(t4 @ e5) @ e6"] obtain r7 e7 where
      v: "save_ticket_record E a (JObj kvs) ticket (clock E t) ((t4 @ e5) @ e6) = (r7, ((t4 @ e5) @ e6) @ e7)"
         "\<not> list_ex is_search e7" by blast
    show ?thesis
    proof (cases r6)
      case (Inl e)
      with u j Inr s x4 show ?thesis
        by (intro exI[of _ "Inl e"] exI[of _ "x4 @ e5 @ e6"]) simp
    next
      case r6: (Inr u6)
      show ?thesis
      proof (cases r7)
        case (Inl e)
        with u j Inr s r6 v x4 show ?thesis
          by (intro exI[of _ "Inl e"] exI[of _ "x4 @ e5 @ e6 @ e7"]) simp
      next
        case r7: (Inr u7)
        with u j Inr s r6 v x4 show ?thesis
          by (intro exI[of _ "Inr ticket"] exI[of _ "x4 @ e5 @ e6 @ e7"]) simp
      qed
    qed
  qed
qed

lemma scan_event_no_search:
  "\<exists>r ext. scan_event E ev hs t = (r, t @ ext) \<and> \<not> list_ex is_search ext"
  unfolding scan_event_def Let_def
  by (auto split: sum.splits prod.splits json.splits if_splits)

lemma fold_events_no_search:
  "\<exists>r ext. fold_events E evs hs t = (r, t @ ext) \<and> \<not> list_ex is_search ext"
proof (induction evs arbitrary: hs t)
  case Nil
  show ?case by simp
next
  case (Cons ev evs)
  from scan_event_no_search[of E ev hs t] obtain r e1 where
    a: "scan_event E ev hs t = (r, t @ e1)" "\<not> list_ex is_search e1" by blast
  show ?case
  proof (cases r)
    case (Inl e)
    with a show ?thesis by (intro exI[of _ "Inl e"] exI[of _ e1]) simp
  next
    case (Inr hs1)
    from Cons.IH[of hs1 "t @ e1"] obtain r2 e2 where
      b: "fold_events E evs hs1 (t @ e1) = (r2, (t @ e1) @ e2)" "\<not> list_ex is_search e2" by blast
    with a Inr show ?thesis by (intro exI[of _ r2] exI[of _ "e1 @ e2"]) simp
  qed
qed

lemma scan_host_no_search:
  "\<exists>r ext. scan_host E time_range d t = (r, t @ ext) \<and> \<not> list_ex is_search ext"
proof (cases "scan_alert_message E time_range d")
  case (Inl e)
  then show ?thesis unfolding scan_host_def Let_def by simp
next
  case (Inr msg)
  define aid where "aid = scan_alert_id E d t"
  define md where "md = scan_alert_metadata time_range d"
  have "\<exists>r ext. scan_host_try E aid msg md d (t @ [ClockRead]) = (r, (t @ [ClockRead]) @ ext) \<and> \<not> list_ex is_search ext"
  proof (cases "AlertData aid (hd_severity d) msg (hd_host d) (clock E (t @ [ClockRead])) md")
    case (Inl e)
    then show ?thesis unfolding scan_host_try_def by simp
  next
    case (Inr al)
    from process_alert_no_search[of E al "(t @ [ClockRead]) @ [ClockRead]"] obtain r ext where
      p: "process_alert E al ((t @ [ClockRead]) @ [ClockRead]) = (r, ((t @ [ClockRead]) @ [ClockRead]) @ ext)"
         "\<not> list_ex is_search ext" by blast
    show ?thesis
      unfolding scan_host_try_def using Inr p
      by (cases r) (auto split: sum.splits)
  qed
  then obtain r ext where
    h: "scan_host_try E aid msg md d (t @ [ClockRead]) = (r, (t @ [ClockRead]) @ ext)" "\<not> list_ex is_search ext"
    by blast
  show ?thesis
    unfolding scan_host_def Let_def using Inr h[unfolded aid_def md_def]
    by (cases r) auto
qed

lemma scan_hosts_no_search:
  "\<exists>r ext. scan_hosts E time_range ds t = (r, t @ ext) \<and> \<not> list_ex is_search ext"
proof (induction ds arbitrary: t)
  case Nil
  show ?case by simp
next
  case (Cons d ds)
  from scan_host_no_search[of E time_range d t] obtain r e1 where
    a: "scan_host E time_range d t = (r, t @ e1)" "\<not> list_ex is_search e1" by blast
  show ?case
  proof (cases r)
    case (Inl e)
    with a show ?thesis by (intro exI[of _ "Inl e"] exI[of _ e1]) simp
  next
    case (Inr rep)
    from Cons.IH[of "t @ e1"] obtain r2 e2 where
      b: "scan_hosts E time_range ds (t @ e1) = (r2, (t @ e1) @ e2)" "\<not> list_ex is_search e2" by blast
    with a Inr show ?thesis
      by (cases r2) (auto intro!: exI[of _ "e1 @ e2"])
  qed
qed


lemma contains_mid: "contains k (xs @ k @ ys)"
proof (induction xs)
  case Nil
  show ?case
  proof (cases "k @ ys")
    case Nil
    then show ?thesis by simp
  next
    case (Cons c cs)
    have "prefix k (k @ ys)" by simp
    with Cons have "prefix k (c # cs)" by simp
    with Cons show ?thesis by simp
  qed
next
  case (Cons x xs)
  then show ?case by simp
qed

lemma scan_alert_message_contains:
  assumes "scan_alert_message E time_range d = Inr m"
  shows "contains time_range m"
proof -
  from assms obtain latest100 where
    "m = (''Multiple errors detected on '' @ py_str E (hd_host d) @ '': ''
          @ fmt E (JInt (error_count d)) @ '' errors in '') @ time_range
          @ (''. Latest: '' @ py_str E latest100 @ ''...'')"
    unfolding scan_alert_message_def by (auto split: if_splits)
  then show ?thesis by (simp only: contains_mid)
qed

lemma scan_try_trace:
  "\<exists>r ext. scan_try E time_range t = (r, t @ ToolCall ''splunk'' ''search_recent'' search_arguments # ext) \<and>
     \<not> list_ex is_search ext \<and>
     (\<forall>rep. r = Inr rep \<longrightarrow> report_time_range rep = time_range)"
proof -
  let ?c = "ToolCall ''splunk'' ''search_recent'' search_arguments"
  obtain r0 where w: "wait_for (call_tool E ''splunk'' ''search_recent'' search_arguments t) = (r0, t @ [?c])"
    by (rule wait_call_tool[of "''splunk''"]) simp_all
  show ?thesis
  proof (cases r0)
    case (Inl e)
    with w show ?thesis unfolding scan_try_def
      by (intro exI[of _ "Inl e"] exI[of _ "[]"]) (simp del: and_then_Inr)
  next
    case r0: (Inr res)
    let ?p = "and_then (parse_tool_response E res) (\<lambda>search_data.
               and_then (dict_get search_data ''results'' (JArr [])) (\<lambda>error_events.
               and_then (py_iter error_events) (\<lambda>evs. Inr (error_events, evs))))"
    show ?thesis
    proof (cases ?p)
      case (Inl e)
      with w r0 show ?thesis unfolding scan_try_def
        by (intro exI[of _ "Inl e"] exI[of _ "[]"]) (simp del: and_then_Inr)
    next
      case p: (Inr pr)
      obtain error_events evs where pr: "pr = (error_events, evs)" by (cases pr)
      from fold_events_no_search[of E evs "[]" "t @ [?c]"] obtain r2 e2 where
        f: "fold_events E evs [] (t @ [?c]) = (r2, (t @ [?c]) @ e2)" "\<not> list_ex is_search e2" by blast
      show ?thesis
      proof (cases r2)
        case (Inl e)
        with w r0 p pr f show ?thesis unfolding scan_try_def
          by (intro exI[of _ "Inl e"] exI[of _ e2]) (simp del: and_then_Inr)
      next
        case r2: (Inr hosts)
        from scan_hosts_no_search[of E time_range "map snd hosts" "(t @ [?c]) @ e2"] obtain r3 e3 where
          h: "scan_hosts E time_range (map snd hosts) ((t @ [?c]) @ e2) = (r3, ((t @ [?c]) @ e2) @ e3)"
             "\<not> list_ex is_search e3" by blast
        show ?thesis
        proof (cases r3)
          case (Inl e)
          with w r0 p pr f r2 h show ?thesis unfolding scan_try_def
            by (intro exI[of _ "Inl e"] exI[of _ "e2 @ e3"]) (simp del: and_then_Inr)
        next
          case r3: (Inr alerts)
          show ?thesis
          proof (cases "py_len error_events")
            case (Inl e)
            with w r0 p pr f r2 h r3 show ?thesis unfolding scan_try_def
              by (intro exI[of _ "Inl e"] exI[of _ "e2 @ e3"]) (simp del: and_then_Inr)
          next
            case (Inr n)
            with w r0 p pr f r2 h r3 show ?thesis unfolding scan_try_def
              by (intro exI[of _ "Inr (ScanCompleted time_range n (int (length hosts))
                                 (int (length (filter (\<lambda>r. ar_status r = ''processed'') alerts)))
                                 (int (length (filter (\<lambda>r. ar_status r = ''failed'') alerts)))
                                 alerts)"] exI[of _ "e2 @ e3"]) (simp del: and_then_Inr)
          qed
        qed
      qed
    qed
  qed
qed



end
